theory Spec2Isabelle
  imports Complex_Main "HOL-Library.Log_Nat"
begin

section \<open>Common data: identifiers, numbers, errors, the authenticated user\<close>

text \<open>
  Documents are addressed by their ObjectId, modelled as a natural number. A JavaScript
  Number is an IEEE 754 double; a finite double is a rational number, so the type of
  Numbers is \<open>rat\<close>. The comparisons of doubles are the comparisons of their values.
  The operators \<open>+\<close>, \<open>-\<close> and \<open>*\<close> compute the exact result and round it to the
  nearest double, and a decimal literal such as \<open>0.1\<close> denotes the double nearest to it.
\<close>

type_synonym objid = nat
type_synonym number = rat

text \<open>
  Rounding to the nearest double, ties to the even significand: \<open>exponent x\<close> is the
  \<open>k\<close> with \<open>2 ^ k \<le> \<bar>x\<bar> < 2 ^ (k + 1)\<close> (found from the bit lengths of numerator and
  denominator), and \<open>round53 x\<close> keeps 53 significant bits of \<open>x\<close>. This is the
  rounding of binary64 for results in the range of the normal doubles; results that
  overflow to \<open>Infinity\<close> or fall among the subnormal numbers are outside the model.

  The definitions of the order workflow whose name ends in \<open>_fp\<close> take the rounding as
  a parameter \<open>rnd\<close> and apply it where the program's arithmetic rounds: with
  \<open>round53\<close> they compute on doubles as the program does. The definitions without the
  suffix are the same computations in exact arithmetic (the instance where \<open>rnd\<close> rounds
  nothing); they are used for the properties that do not depend on the amounts, and for
  amounts that are computed without any rounding error, such as 2 times 50.
\<close>

definition round_half_even :: "rat \<Rightarrow> int" where
  "round_half_even x =
     (let f = \<lfloor>x\<rfloor>; d = x - of_int f
      in if d < 1 / 2 then f else if 1 / 2 < d then f + 1 else if even f then f else f + 1)"

definition exponent :: "rat \<Rightarrow> int" where
  "exponent x =
     (case quotient_of \<bar>x\<bar> of (p, q) \<Rightarrow>
        let k = bitlen p - bitlen q
        in if 2 powi k \<le> \<bar>x\<bar> then k else k - 1)"

definition round53 :: "number \<Rightarrow> number" where
  "round53 x =
     (if x = 0 then 0
      else let e = exponent x - 52 in of_int (round_half_even (x / 2 powi e)) * 2 powi e)"

text \<open>
  A message built by a template literal keeps its literal parts and the interpolated
  values apart: \<^verbatim>\<open>`Product not found with id of ${item.product}`\<close> is
  \<open>[Lit ''Product not found with id of '', Id p]\<close>.
\<close>

datatype part = Lit string | Id objid | Num number

text \<open>
  \<open>ErrorResponse message statusCode\<close> is the error class the controllers construct
  and hand to \<open>next\<close> (it is declared in the error middleware; the model keeps the two
  arguments the controllers give it). \<open>ValidationError\<close>, \<open>CastError\<close> and \<open>DocumentNotFoundError\<close> are the
  errors the document mapper throws from \<open>create\<close>, \<open>save\<close> and
  \<open>findByIdAndUpdate\<close>, and \<open>TokenError\<close> is a failure of the token signer; the
  controllers catch them and hand them to \<open>next\<close> as well.
\<close>

datatype error =
    ErrorResponse "part list" nat
  | ValidationError
  | CastError
  | DocumentNotFoundError
  | TokenError

record user =
  user_id :: objid
  user_role :: string

section \<open>Order workflow\<close>

subsection \<open>Documents\<close>

text \<open>
  Modelled from the spec: the Product schema (the product model is not among the source
  files). Of the fields the spec lists for a Product (name, price, stock, category,
  imageUrl) the record keeps the three that \<open>createOrder\<close> reads and writes.
\<close>

record product =
  product_name :: string
  product_price :: number
  product_stock :: number

text \<open>The Order schema: line items, payment information, amounts and status.\<close>

record order_item =
  item_product :: objid
  item_name :: string
  item_price :: number
  item_quantity :: number

record payment_info =
  payment_type :: string
  payment_transactionId :: "string option"
  payment_status :: string

record address =
  address_name :: string
  address_street :: string
  address_city :: string
  address_state :: string
  address_zipCode :: string
  address_country :: string
  address_phone :: string

record order =
  order_user :: objid
  order_products :: "order_item list"
  order_shippingAddress :: address
  order_paymentInfo :: payment_info
  order_subtotal :: number
  order_tax :: number
  order_shipping :: number
  order_total :: number
  order_status :: string

text \<open>
  The shop's collections. \<open>shop_next_id\<close> is the identifier the store gives to the next
  created Order document.
\<close>

record shop =
  shop_products :: "objid \<rightharpoonup> product"
  shop_orders :: "objid \<rightharpoonup> order"
  shop_next_id :: objid

text \<open>The request body of \<open>POST /api/orders\<close>; \<open>None\<close> is an absent field.\<close>

record cart_item =
  cart_product :: objid
  cart_quantity :: number

record order_body =
  body_products :: "cart_item list option"
  body_shippingAddress :: "address option"

subsection \<open>Schema validation and \<open>Order.create\<close>\<close>

definition order_status_enum :: "string list" where
  "order_status_enum = [''pending'', ''processing'', ''shipped'', ''delivered'', ''cancelled'']"

definition payment_status_enum :: "string list" where
  "payment_status_enum = [''pending'', ''completed'', ''failed'', ''refunded'']"

definition payment_type_enum :: "string list" where
  "payment_type_enum = [''stripe'', ''paypal'']"

text \<open>
  The validators of the Order schema: \<open>quantity\<close> at least 1 on every line,
  \<open>subtotal\<close>, \<open>tax\<close>, \<open>shipping\<close> and \<open>total\<close> not negative, the three enums.
\<close>

definition order_valid :: "order \<Rightarrow> bool" where
  "order_valid ord \<longleftrightarrow>
     list_all (\<lambda>l. 1 \<le> item_quantity l) (order_products ord)
     \<and> 0 \<le> order_subtotal ord \<and> 0 \<le> order_tax ord
     \<and> 0 \<le> order_shipping ord \<and> 0 \<le> order_total ord
     \<and> order_status ord \<in> set order_status_enum
     \<and> payment_status (order_paymentInfo ord) \<in> set payment_status_enum
     \<and> payment_type (order_paymentInfo ord) \<in> set payment_type_enum"

text \<open>The schema defaults of \<open>paymentInfo\<close>: type \<open>stripe\<close>, status \<open>pending\<close>.\<close>

definition default_paymentInfo :: payment_info where
  "default_paymentInfo =
     \<lparr>payment_type = ''stripe'', payment_transactionId = None, payment_status = ''pending''\<rparr>"

text \<open>
  \<open>Order.create\<close>: validates, then inserts the document under a new identifier.
  A validation failure throws and nothing is inserted.
\<close>

definition Order_create :: "order \<Rightarrow> shop \<Rightarrow> (error + objid \<times> order) \<times> shop" where
  "Order_create ord db =
     (if order_valid ord
      then (Inr (shop_next_id db, ord),
            db\<lparr>shop_orders := (shop_orders db)(shop_next_id db \<mapsto> ord),
               shop_next_id := Suc (shop_next_id db)\<rparr>)
      else (Inl ValidationError, db))"

subsection \<open>\<open>createOrder\<close>\<close>

text \<open>
  The \<open>for (const item of products)\<close> loop of \<open>createOrder\<close>. The accumulator is
  \<open>(orderItems, subtotal)\<close>; the products collection is threaded through, because each
  iteration saves the decremented stock before the next item is looked at. An early
  \<open>return next(...)\<close> leaves the collection as the iterations before it made it.
\<close>

fun process_items ::
  "cart_item list \<Rightarrow> order_item list \<times> number \<Rightarrow> (objid \<rightharpoonup> product)
     \<Rightarrow> (error + order_item list \<times> number) \<times> (objid \<rightharpoonup> product)" where
  "process_items [] acc ps = (Inr acc, ps)"
| "process_items (item # rest) (orderItems, subtotal) ps =
     (case ps (cart_product item) of
        None \<Rightarrow>
          (Inl (ErrorResponse [Lit ''Product not found with id of '', Id (cart_product item)] 404), ps)
      | Some p \<Rightarrow>
          if product_stock p < cart_quantity item
          then (Inl (ErrorResponse
                  [Lit (product_name p), Lit '' is out of stock. Only '', Num (product_stock p),
                   Lit '' available.''] 400), ps)
          else process_items rest
                 (orderItems @
                    [\<lparr>item_product = cart_product item, item_name = product_name p,
                      item_price = product_price p, item_quantity = cart_quantity item\<rparr>],
                  subtotal + product_price p * cart_quantity item)
                 (ps(cart_product item \<mapsto> p\<lparr>product_stock := product_stock p - cart_quantity item\<rparr>)))"

text \<open>
  The amounts of \<open>createOrder\<close> and the document it hands to \<open>Order.create\<close>:
  10 percent tax, shipping free above 100 and 10 otherwise.
\<close>

definition priced_order :: "user \<Rightarrow> address \<Rightarrow> order_item list \<Rightarrow> number \<Rightarrow> order" where
  "priced_order req_user shippingAddress orderItems subtotal =
     (let tax = subtotal * (1 / 10);
          shipping = (if subtotal > 100 then 0 else 10);
          total = subtotal + tax + shipping
      in \<lparr>order_user = user_id req_user, order_products = orderItems,
          order_shippingAddress = shippingAddress,
          order_paymentInfo = default_paymentInfo,
          order_subtotal = subtotal, order_tax = tax,
          order_shipping = shipping, order_total = total,
          order_status = ''pending''\<rparr>)"

text \<open>
  \<open>createOrder\<close>. The result is the error handed to \<open>next\<close>, or the status 201 with
  the identifier and content of the created order; the second component is the store
  after the call.
\<close>

definition createOrder :: "user \<Rightarrow> order_body \<Rightarrow> shop \<Rightarrow> (error + nat \<times> objid \<times> order) \<times> shop" where
  "createOrder req_user body db =
     (case body_products body of
        None \<Rightarrow> (Inl (ErrorResponse [Lit ''Please add at least one product to your order''] 400), db)
      | Some products \<Rightarrow>
          if products = []
          then (Inl (ErrorResponse [Lit ''Please add at least one product to your order''] 400), db)
          else
            (case body_shippingAddress body of
               None \<Rightarrow> (Inl (ErrorResponse [Lit ''Please provide a shipping address''] 400), db)
             | Some shippingAddress \<Rightarrow>
                 (case process_items products ([], 0) (shop_products db) of
                    (Inl e, ps) \<Rightarrow> (Inl e, db\<lparr>shop_products := ps\<rparr>)
                  | (Inr (orderItems, subtotal), ps) \<Rightarrow>
                      (case Order_create (priced_order req_user shippingAddress orderItems subtotal)
                                 (db\<lparr>shop_products := ps\<rparr>) of
                         (Inl e, db') \<Rightarrow> (Inl e, db')
                       | (Inr (oid, ord), db') \<Rightarrow> (Inr (201, oid, ord), db')))))"

text \<open>
  \<open>createOrder\<close> on doubles. \<open>subtotal += product.price * item.quantity\<close> rounds the
  product and then the sum; \<open>product.stock -= item.quantity\<close> rounds the difference;
  \<open>subtotal * 0.1\<close> multiplies by the double nearest to one tenth and rounds;
  \<open>subtotal + tax + shipping\<close> associates to the left and rounds after each addition.
  The constants 0, 10 and 100 are doubles.
\<close>

fun process_items_fp ::
  "(number \<Rightarrow> number) \<Rightarrow> cart_item list \<Rightarrow> order_item list \<times> number \<Rightarrow> (objid \<rightharpoonup> product)
     \<Rightarrow> (error + order_item list \<times> number) \<times> (objid \<rightharpoonup> product)" where
  "process_items_fp rnd [] acc ps = (Inr acc, ps)"
| "process_items_fp rnd (item # rest) (orderItems, subtotal) ps =
     (case ps (cart_product item) of
        None \<Rightarrow>
          (Inl (ErrorResponse [Lit ''Product not found with id of '', Id (cart_product item)] 404), ps)
      | Some p \<Rightarrow>
          if product_stock p < cart_quantity item
          then (Inl (ErrorResponse
                  [Lit (product_name p), Lit '' is out of stock. Only '', Num (product_stock p),
                   Lit '' available.''] 400), ps)
          else process_items_fp rnd rest
                 (orderItems @
                    [\<lparr>item_product = cart_product item, item_name = product_name p,
                      item_price = product_price p, item_quantity = cart_quantity item\<rparr>],
                  rnd (subtotal + rnd (product_price p * cart_quantity item)))
                 (ps(cart_product item \<mapsto>
                       p\<lparr>product_stock := rnd (product_stock p - cart_quantity item)\<rparr>)))"

definition priced_order_fp ::
  "(number \<Rightarrow> number) \<Rightarrow> user \<Rightarrow> address \<Rightarrow> order_item list \<Rightarrow> number \<Rightarrow> order" where
  "priced_order_fp rnd req_user shippingAddress orderItems subtotal =
     (let tax = rnd (subtotal * rnd (1 / 10));
          shipping = (if subtotal > 100 then 0 else 10);
          total = rnd (rnd (subtotal + tax) + shipping)
      in \<lparr>order_user = user_id req_user, order_products = orderItems,
          order_shippingAddress = shippingAddress,
          order_paymentInfo = default_paymentInfo,
          order_subtotal = subtotal, order_tax = tax,
          order_shipping = shipping, order_total = total,
          order_status = ''pending''\<rparr>)"

definition createOrder_fp ::
  "(number \<Rightarrow> number) \<Rightarrow> user \<Rightarrow> order_body \<Rightarrow> shop \<Rightarrow> (error + nat \<times> objid \<times> order) \<times> shop" where
  "createOrder_fp rnd req_user body db =
     (case body_products body of
        None \<Rightarrow> (Inl (ErrorResponse [Lit ''Please add at least one product to your order''] 400), db)
      | Some products \<Rightarrow>
          if products = []
          then (Inl (ErrorResponse [Lit ''Please add at least one product to your order''] 400), db)
          else
            (case body_shippingAddress body of
               None \<Rightarrow> (Inl (ErrorResponse [Lit ''Please provide a shipping address''] 400), db)
             | Some shippingAddress \<Rightarrow>
                 (case process_items_fp rnd products ([], 0) (shop_products db) of
                    (Inl e, ps) \<Rightarrow> (Inl e, db\<lparr>shop_products := ps\<rparr>)
                  | (Inr (orderItems, subtotal), ps) \<Rightarrow>
                      (case Order_create (priced_order_fp rnd req_user shippingAddress orderItems subtotal)
                                 (db\<lparr>shop_products := ps\<rparr>) of
                         (Inl e, db') \<Rightarrow> (Inl e, db')
                       | (Inr (oid, ord), db') \<Rightarrow> (Inr (201, oid, ord), db')))))"

text \<open>The order a successful \<open>createOrder\<close> answered with, if it did.\<close>

definition created_order :: "(error + nat \<times> objid \<times> order) \<times> shop \<Rightarrow> order option" where
  "created_order r = (case fst r of Inl e \<Rightarrow> None | Inr (st, oid, ord) \<Rightarrow> Some ord)"



definition snapshot_of :: "(objid \<rightharpoonup> product) \<Rightarrow> order_item \<Rightarrow> bool" where
  "snapshot_of ps l \<longleftrightarrow>
     (case ps (item_product l) of
        None \<Rightarrow> False
      | Some p \<Rightarrow> item_name l = product_name p \<and> item_price l = product_price p)"

subsection \<open>\<open>updateOrderStatus\<close> and \<open>handleStripeWebhook\<close>\<close>

text \<open>
  \<open>order.save()\<close> on a document loaded from the store: the document is validated
  against the schema and written back under its identifier.
\<close>

definition Order_save :: "objid \<Rightarrow> order \<Rightarrow> shop \<Rightarrow> (error + order) \<times> shop" where
  "Order_save oid ord db =
     (if order_valid ord
      then (Inr ord, db\<lparr>shop_orders := (shop_orders db)(oid \<mapsto> ord)\<rparr>)
      else (Inl ValidationError, db))"

text \<open>
  \<open>updateOrderStatus\<close> (behind \<open>authorize('admin')\<close> in the router). \<open>!status\<close> holds
  for an absent status and for the empty string.
\<close>

definition updateOrderStatus :: "objid \<Rightarrow> string option \<Rightarrow> shop \<Rightarrow> (error + nat \<times> order) \<times> shop" where
  "updateOrderStatus oid body_status db =
     (case body_status of
        None \<Rightarrow> (Inl (ErrorResponse [Lit ''Please provide a status''] 400), db)
      | Some status \<Rightarrow>
          if status = [] then (Inl (ErrorResponse [Lit ''Please provide a status''] 400), db)
          else
            (case shop_orders db oid of
               None \<Rightarrow> (Inl (ErrorResponse [Lit ''Order not found with id of '', Id oid] 404), db)
             | Some ord \<Rightarrow>
                 (case Order_save oid (ord\<lparr>order_status := status\<rparr>) db of
                    (Inl e, db') \<Rightarrow> (Inl e, db')
                  | (Inr ord', db') \<Rightarrow> (Inr (200, ord'), db'))))"

text \<open>
  The payment gateway's event, as far as the handler reads it: its type and the
  \<open>metadata.orderId\<close> of the payment intent. The metadata is free text of the gateway's
  account, so the order id is absent (\<open>findById(undefined)\<close> finds nothing), or a
  well-formed ObjectId, or a string that is no ObjectId, for which \<open>Order.findById\<close>
  throws a cast error. Signature verification is the gateway library's
  \<open>constructEvent\<close>; it is a parameter of the model and returns the thrown error's
  message (\<open>Inl\<close>) or the event.
\<close>

datatype id_value = No_Id | Object_Id objid | Not_An_Id string

record stripe_event =
  event_type :: string
  event_orderId :: id_value

datatype webhook_reply = Webhook_Error string | Received

text \<open>
  \<open>Inr\<close> is the handler's own reply (\<open>res.status(400).send(...)\<close> or
  \<open>res.json({received: true})\<close>, status 200); \<open>Inl\<close> is an error caught by the outer
  \<open>try\<close> and handed to \<open>next\<close>.
\<close>

definition handleStripeWebhook ::
  "('raw \<Rightarrow> 'sig \<Rightarrow> 'secret \<Rightarrow> string + stripe_event) \<Rightarrow> 'raw \<Rightarrow> 'sig \<Rightarrow> 'secret \<Rightarrow> shop
     \<Rightarrow> (error + nat \<times> webhook_reply) \<times> shop" where
  "handleStripeWebhook constructEvent raw sig secret db =
     (case constructEvent raw sig secret of
        Inl err_message \<Rightarrow> (Inr (400, Webhook_Error err_message), db)
      | Inr event \<Rightarrow>
          if event_type event = ''payment_intent.succeeded''
          then
            (case event_orderId event of
               No_Id \<Rightarrow> (Inr (200, Received), db)
             | Not_An_Id orderId \<Rightarrow> (Inl CastError, db)
             | Object_Id oid \<Rightarrow>
                 (case shop_orders db oid of
                    None \<Rightarrow> (Inr (200, Received), db)
                  | Some ord \<Rightarrow>
                      (case Order_save oid
                              (ord\<lparr>order_paymentInfo :=
                                     (order_paymentInfo ord)\<lparr>payment_status := ''completed''\<rparr>,
                                   order_status := ''processing''\<rparr>) db of
                         (Inl e, db') \<Rightarrow> (Inl e, db')
                       | (Inr ord', db') \<Rightarrow> (Inr (200, Received), db'))))
          else (Inr (200, Received), db))"

subsection \<open>Two \<open>createOrder\<close> requests in flight\<close>

text \<open>
  The server runs one handler at a time and switches between requests only where a
  handler waits for the store (\<open>await\<close>). A \<open>createOrder\<close> request that has passed its
  input checks is therefore a process whose steps are its store operations, each followed
  by the handler's own code up to the next \<open>await\<close>:
  \<^item> in \<open>Loop (item # rest) orderItems subtotal\<close> the next step is
    \<open>Product.findById(item.product)\<close>, followed by the two checks, the push, the
    subtotal and the new stock computed on the handler's copy of the product;
  \<^item> in \<open>Saving k stock rest orderItems subtotal\<close> the next step is \<open>product.save()\<close>,
    which writes the modified field \<open>stock\<close> of document \<open>k\<close>;
  \<^item> in \<open>Loop [] orderItems subtotal\<close> the next step is \<open>Order.create\<close>;
  \<^item> \<open>Finished r\<close> has answered.
\<close>

datatype proc =
    Loop "cart_item list" "order_item list" number
  | Saving objid number "cart_item list" "order_item list" number
  | Finished "error + nat \<times> objid \<times> order"

fun step :: "user \<Rightarrow> address \<Rightarrow> proc \<Rightarrow> shop \<Rightarrow> proc \<times> shop" where
  "step req_user shippingAddress (Loop [] orderItems subtotal) db =
     (case Order_create (priced_order req_user shippingAddress orderItems subtotal) db of
        (Inl e, db') \<Rightarrow> (Finished (Inl e), db')
      | (Inr (oid, ord), db') \<Rightarrow> (Finished (Inr (201, oid, ord)), db'))"
| "step req_user shippingAddress (Loop (item # rest) orderItems subtotal) db =
     (case shop_products db (cart_product item) of
        None \<Rightarrow>
          (Finished (Inl (ErrorResponse
             [Lit ''Product not found with id of '', Id (cart_product item)] 404)), db)
      | Some p \<Rightarrow>
          if product_stock p < cart_quantity item
          then (Finished (Inl (ErrorResponse
                  [Lit (product_name p), Lit '' is out of stock. Only '', Num (product_stock p),
                   Lit '' available.''] 400)), db)
          else (Saving (cart_product item) (product_stock p - cart_quantity item) rest
                  (orderItems @
                     [\<lparr>item_product = cart_product item, item_name = product_name p,
                       item_price = product_price p, item_quantity = cart_quantity item\<rparr>])
                  (subtotal + product_price p * cart_quantity item), db))"
| "step req_user shippingAddress (Saving k stock rest orderItems subtotal) db =
     (case shop_products db k of
        None \<Rightarrow> (Finished (Inl DocumentNotFoundError), db)
      | Some cur \<Rightarrow>
          (Loop rest orderItems subtotal,
           db\<lparr>shop_products := (shop_products db)(k \<mapsto> cur\<lparr>product_stock := stock\<rparr>)\<rparr>))"
| "step req_user shippingAddress (Finished r) db = (Finished r, db)"

text \<open>
  The process a request starts as: the two input checks of \<open>createOrder\<close> touch no
  store, so a body that fails one has answered at once, and any other enters the loop.
\<close>

definition start :: "order_body \<Rightarrow> proc" where
  "start body =
     (case body_products body of
        None \<Rightarrow> Finished (Inl (ErrorResponse [Lit ''Please add at least one product to your order''] 400))
      | Some products \<Rightarrow>
          if products = []
          then Finished (Inl (ErrorResponse [Lit ''Please add at least one product to your order''] 400))
          else (case body_shippingAddress body of
                  None \<Rightarrow> Finished (Inl (ErrorResponse [Lit ''Please provide a shipping address''] 400))
                | Some shippingAddress \<Rightarrow> Loop products [] 0))"

text \<open>One request running alone for \<open>n\<close> steps.\<close>

fun steps :: "nat \<Rightarrow> user \<Rightarrow> address \<Rightarrow> proc \<Rightarrow> shop \<Rightarrow> proc \<times> shop" where
  "steps 0 req_user shippingAddress p db = (p, db)"
| "steps (Suc n) req_user shippingAddress p db =
     (case step req_user shippingAddress p db of (p', db') \<Rightarrow> steps n req_user shippingAddress p' db')"

text \<open>
  Two requests share the store. A schedule says which request takes the next step; a
  request that has answered takes no more steps.
\<close>

datatype turn = First | Second

record two_requests =
  first_user :: user
  first_address :: address
  second_user :: user
  second_address :: address

fun take_turn :: "two_requests \<Rightarrow> turn \<Rightarrow> proc \<times> proc \<times> shop \<Rightarrow> proc \<times> proc \<times> shop" where
  "take_turn rq First (p1, p2, db) =
     (case step (first_user rq) (first_address rq) p1 db of (p1', db') \<Rightarrow> (p1', p2, db'))"
| "take_turn rq Second (p1, p2, db) =
     (case step (second_user rq) (second_address rq) p2 db of (p2', db') \<Rightarrow> (p1, p2', db'))"

definition interleave :: "two_requests \<Rightarrow> turn list \<Rightarrow> proc \<times> proc \<times> shop \<Rightarrow> proc \<times> proc \<times> shop" where
  "interleave rq schedule c = fold (take_turn rq) schedule c"

definition succeeded :: "proc \<Rightarrow> bool" where
  "succeeded p = (case p of Finished (Inr r) \<Rightarrow> True | _ \<Rightarrow> False)"

definition answered :: "proc \<Rightarrow> bool" where
  "answered p = (case p of Finished r \<Rightarrow> True | _ \<Rightarrow> False)"

definition stock_of :: "shop \<Rightarrow> objid \<Rightarrow> number option" where
  "stock_of db k = map_option product_stock (shop_products db k)"

subsection \<open>The scenario of the last item in stock\<close>

text \<open>
  A request for one unit of product \<open>k\<close>; the order line and the out-of-stock error it can
  lead to; and the states a request for the last unit goes through: before its save
  (\<open>early\<close>), after it (\<open>late\<close>), or refused. \<open>finish\<close> is what \<open>createOrder\<close> does with
  the result of its loop.
\<close>

definition finish :: "user \<Rightarrow> address \<Rightarrow> (error + order_item list \<times> number) \<times> (objid \<rightharpoonup> product) \<Rightarrow> shop \<Rightarrow> proc \<times> shop" where
  "finish req_user addr r db =
     (case r of
        (Inl e, ps) \<Rightarrow> (Finished (Inl e), db\<lparr>shop_products := ps\<rparr>)
      | (Inr (ois, sub), ps) \<Rightarrow>
          (case Order_create (priced_order req_user addr ois sub) (db\<lparr>shop_products := ps\<rparr>) of
             (Inl e, db') \<Rightarrow> (Finished (Inl e), db')
           | (Inr (oid, ord), db') \<Rightarrow> (Finished (Inr (201, oid, ord)), db')))"

definition one_of :: "objid \<Rightarrow> address \<Rightarrow> order_body" where
  "one_of k addr =
     \<lparr>body_products = Some [\<lparr>cart_product = k, cart_quantity = 1\<rparr>], body_shippingAddress = Some addr\<rparr>"

definition line_of :: "objid \<Rightarrow> product \<Rightarrow> order_item" where
  "line_of k p =
     \<lparr>item_product = k, item_name = product_name p, item_price = product_price p, item_quantity = 1\<rparr>"

definition out_of_stock :: "product \<Rightarrow> error" where
  "out_of_stock p =
     ErrorResponse [Lit (product_name p), Lit '' is out of stock. Only '', Num 0, Lit '' available.''] 400"

definition early :: "objid \<Rightarrow> product \<Rightarrow> proc \<Rightarrow> bool" where
  "early k p c \<longleftrightarrow>
     c = Loop [\<lparr>cart_product = k, cart_quantity = 1\<rparr>] [] 0
     \<or> c = Saving k 0 [] [line_of k p] (product_price p)"

definition late :: "user \<Rightarrow> address \<Rightarrow> objid \<Rightarrow> product \<Rightarrow> proc \<Rightarrow> bool" where
  "late u a k p c \<longleftrightarrow>
     c = Loop [] [line_of k p] (product_price p)
     \<or> (\<exists>oid. c = Finished (Inr (201, oid, priced_order u a [line_of k p] (product_price p))))"

definition phase :: "user \<Rightarrow> address \<Rightarrow> objid \<Rightarrow> product \<Rightarrow> proc \<Rightarrow> bool" where
  "phase u a k p c \<longleftrightarrow> early k p c \<or> late u a k p c \<or> c = Finished (Inl (out_of_stock p))"

definition last_item_inv :: "two_requests \<Rightarrow> objid \<Rightarrow> product \<Rightarrow> proc \<times> proc \<times> shop \<Rightarrow> bool" where
  "last_item_inv rq k p c =
     (case c of (p1, p2, db) \<Rightarrow>
        (shop_products db k = Some (p\<lparr>product_stock := 1\<rparr>) \<and> early k p p1 \<and> early k p p2)
        \<or> (shop_products db k = Some (p\<lparr>product_stock := 0\<rparr>)
            \<and> phase (first_user rq) (first_address rq) k p p1
            \<and> phase (second_user rq) (second_address rq) k p p2
            \<and> (late (first_user rq) (first_address rq) k p p1
                 \<or> late (second_user rq) (second_address rq) k p p2)))"

section \<open>Booking workflow\<close>

subsection \<open>Documents\<close>

text \<open>
  The Booking schema, with the fields the controllers read or write. A stored date is a
  time stamp; \<open>new Date(x)\<close> on a request value is a \<open>jsdate\<close>, which may be invalid.
\<close>

datatype jsdate = Date int | InvalidDate

record details =
  details_numberOfPeople :: "number option"
  details_specialRequirements :: "string option"
  details_preferredStyle :: "string option"
  details_outfitChanges :: "number option"

record booking_payment =
  payment_amount :: number
  payment_deposit :: number
  payment_isPaid :: bool
  payment_method :: string

record booking =
  booking_client :: objid
  booking_sessionType :: string
  booking_date :: int
  booking_timeSlot :: "int \<times> int"
  booking_location :: string
  booking_additionalDetails :: details
  booking_photographer :: "objid option"
  booking_status :: string
  booking_payment :: booking_payment
  booking_calendlyEventId :: "string option"
  booking_notes :: "string option"

definition sessionType_enum :: "string list" where
  "sessionType_enum = [''portrait'', ''wedding'', ''event'', ''family'', ''commercial'', ''other'']"

definition booking_status_enum :: "string list" where
  "booking_status_enum = [''pending'', ''confirmed'', ''completed'', ''cancelled'']"

definition payment_method_enum :: "string list" where
  "payment_method_enum = [''credit_card'', ''paypal'', ''cash'', ''bank_transfer'']"

text \<open>
  The validators of the Booking schema: the enums, a location that is present (not the
  empty string), amounts that are not negative.
\<close>

definition booking_valid :: "booking \<Rightarrow> bool" where
  "booking_valid b \<longleftrightarrow>
     booking_sessionType b \<in> set sessionType_enum
     \<and> booking_location b \<noteq> []
     \<and> booking_status b \<in> set booking_status_enum
     \<and> 0 \<le> payment_amount (booking_payment b)
     \<and> 0 \<le> payment_deposit (booking_payment b)
     \<and> payment_method (booking_payment b) \<in> set payment_method_enum"

text \<open>
  The state of the booking workflow: the collection, the cancellation requests sent to
  the external calendar service (event id and reason, in order), and the lines written
  by \<open>console.error\<close>.
\<close>

record booking_db =
  bookings :: "objid \<rightharpoonup> booking"
  calendly_calls :: "(string \<times> string) list"
  console_errors :: "string list"

definition Booking_save :: "objid \<Rightarrow> booking \<Rightarrow> booking_db \<Rightarrow> (error + booking) \<times> booking_db" where
  "Booking_save bid b db =
     (if booking_valid b
      then (Inr b, db\<lparr>bookings := (bookings db)(bid \<mapsto> b)\<rparr>)
      else (Inl ValidationError, db))"

subsection \<open>\<open>updateBookingStatus\<close>\<close>

definition updateBookingStatus ::
  "objid \<Rightarrow> string option \<Rightarrow> booking_db \<Rightarrow> (error + nat \<times> booking) \<times> booking_db" where
  "updateBookingStatus bid body_status db =
     (case body_status of
        None \<Rightarrow> (Inl (ErrorResponse [Lit ''Please provide a status''] 400), db)
      | Some status \<Rightarrow>
          if status = [] then (Inl (ErrorResponse [Lit ''Please provide a status''] 400), db)
          else
            (case bookings db bid of
               None \<Rightarrow> (Inl (ErrorResponse [Lit ''Booking not found with id of '', Id bid] 404), db)
             | Some booking \<Rightarrow>
                 (case Booking_save bid (booking\<lparr>booking_status := status\<rparr>) db of
                    (Inl e, db') \<Rightarrow> (Inl e, db')
                  | (Inr booking', db') \<Rightarrow> (Inr (200, booking'), db'))))"

subsection \<open>\<open>updateBooking\<close>\<close>

text \<open>
  The fields \<open>updateBooking\<close> takes from the request body. \<open>None\<close> is a field left out
  (\<open>undefined\<close>, removed from \<open>updateFields\<close>); for \<open>date\<close> and \<open>timeSlot\<close> it is also
  a falsy value, which the conditional expressions turn into \<open>undefined\<close>.
\<close>

record booking_update =
  update_sessionType :: "string option"
  update_date :: "jsdate option"
  update_timeSlot :: "(jsdate \<times> jsdate) option"
  update_location :: "string option"
  update_additionalDetails :: "details option"
  update_notes :: "string option"

text \<open>
  The schema's \<open>trim\<close> setter on \<open>location\<close> is \<open>String.prototype.trim\<close>: it removes
  white space and line terminators from both ends. A string is its sequence of UTF-8
  bytes, so the characters to remove are byte sequences: TAB, LF, VT, FF, CR, SPACE,
  U+00A0, U+1680, U+2000 to U+200A, U+2028, U+2029, U+202F, U+205F, U+3000 and U+FEFF.
  \<open>strip ws s\<close> removes members of \<open>ws\<close> from the front of \<open>s\<close> as long as there is one.
\<close>

definition white_space :: "string list" where
  "white_space =
     [[CHR 0x09], [CHR 0x0A], [CHR 0x0B], [CHR 0x0C], [CHR 0x0D], [CHR 0x20],
      [CHR 0xC2, CHR 0xA0],
      [CHR 0xE1, CHR 0x9A, CHR 0x80],
      [CHR 0xE2, CHR 0x80, CHR 0x80], [CHR 0xE2, CHR 0x80, CHR 0x81],
      [CHR 0xE2, CHR 0x80, CHR 0x82], [CHR 0xE2, CHR 0x80, CHR 0x83],
      [CHR 0xE2, CHR 0x80, CHR 0x84], [CHR 0xE2, CHR 0x80, CHR 0x85],
      [CHR 0xE2, CHR 0x80, CHR 0x86], [CHR 0xE2, CHR 0x80, CHR 0x87],
      [CHR 0xE2, CHR 0x80, CHR 0x88], [CHR 0xE2, CHR 0x80, CHR 0x89],
      [CHR 0xE2, CHR 0x80, CHR 0x8A],
      [CHR 0xE2, CHR 0x80, CHR 0xA8], [CHR 0xE2, CHR 0x80, CHR 0xA9],
      [CHR 0xE2, CHR 0x80, CHR 0xAF],
      [CHR 0xE2, CHR 0x81, CHR 0x9F],
      [CHR 0xE3, CHR 0x80, CHR 0x80],
      [CHR 0xEF, CHR 0xBB, CHR 0xBF]]"

function strip :: "string list \<Rightarrow> string \<Rightarrow> string" where
  "strip ws s =
     (case find (\<lambda>w. w \<noteq> [] \<and> take (length w) s = w) ws of
        None \<Rightarrow> s
      | Some w \<Rightarrow> strip ws (drop (length w) s))"
  by pat_completeness auto
termination
proof (relation "measure (\<lambda>(ws, s). length s)")
  show "wf (measure (\<lambda>(ws, s). length s))" by simp
next
  fix ws :: "string list" and s w :: string
  assume "find (\<lambda>w. w \<noteq> [] \<and> take (length w) s = w) ws = Some w"
  then have w: "w \<noteq> []" "take (length w) s = w"
    by (auto simp: find_Some_iff)
  have "length (take (length w) s) \<le> length s"
    by simp
  then have "length w \<le> length s"
    by (simp only: w(2))
  with w(1) show "((ws, drop (length w) s), (ws, s)) \<in> measure (\<lambda>(ws, s). length s)"
    by (cases w) auto
qed

definition trim :: "string \<Rightarrow> string" where
  "trim s = rev (strip (map rev white_space) (rev (strip white_space s)))"

text \<open>
  Casting the update: every date of the request must be a valid date, and the \<open>trim\<close>
  setter is applied to \<open>location\<close>. The result is the \<open>$set\<close> document; \<open>None\<close> is the
  cast error.
\<close>

record booking_set =
  set_sessionType :: "string option"
  set_date :: "int option"
  set_timeSlot :: "(int \<times> int) option"
  set_location :: "string option"
  set_additionalDetails :: "details option"
  set_notes :: "string option"

fun cast_date :: "jsdate option \<Rightarrow> int option option" where
  "cast_date None = Some None"
| "cast_date (Some (Date t)) = Some (Some t)"
| "cast_date (Some InvalidDate) = None"

fun cast_timeSlot :: "(jsdate \<times> jsdate) option \<Rightarrow> (int \<times> int) option option" where
  "cast_timeSlot None = Some None"
| "cast_timeSlot (Some (Date s, Date e)) = Some (Some (s, e))"
| "cast_timeSlot (Some (InvalidDate, e)) = None"
| "cast_timeSlot (Some (s, InvalidDate)) = None"

definition cast_update :: "booking_update \<Rightarrow> booking_set option" where
  "cast_update u =
     (case cast_date (update_date u) of
        None \<Rightarrow> None
      | Some date \<Rightarrow>
          (case cast_timeSlot (update_timeSlot u) of
             None \<Rightarrow> None
           | Some timeSlot \<Rightarrow>
               Some \<lparr>set_sessionType = update_sessionType u, set_date = date,
                     set_timeSlot = timeSlot, set_location = map_option trim (update_location u),
                     set_additionalDetails = update_additionalDetails u,
                     set_notes = update_notes u\<rparr>))"

text \<open>
  The validators of the updated paths: \<open>sessionType\<close> in its enum, \<open>location\<close> present.
\<close>

definition set_valid :: "booking_set \<Rightarrow> bool" where
  "set_valid f \<longleftrightarrow>
     (case set_sessionType f of None \<Rightarrow> True | Some t \<Rightarrow> t \<in> set sessionType_enum)
     \<and> (case set_location f of None \<Rightarrow> True | Some l \<Rightarrow> l \<noteq> [])"

text \<open>The partial-field merge: a field that is given replaces the stored one.\<close>

definition merge_set :: "booking_set \<Rightarrow> booking \<Rightarrow> booking" where
  "merge_set f b =
     b\<lparr>booking_sessionType := (case set_sessionType f of None \<Rightarrow> booking_sessionType b | Some t \<Rightarrow> t),
       booking_date := (case set_date f of None \<Rightarrow> booking_date b | Some d \<Rightarrow> d),
       booking_timeSlot := (case set_timeSlot f of None \<Rightarrow> booking_timeSlot b | Some ts \<Rightarrow> ts),
       booking_location := (case set_location f of None \<Rightarrow> booking_location b | Some l \<Rightarrow> l),
       booking_additionalDetails :=
         (case set_additionalDetails f of None \<Rightarrow> booking_additionalDetails b | Some d \<Rightarrow> d),
       booking_notes := (case set_notes f of None \<Rightarrow> booking_notes b | Some n \<Rightarrow> Some n)\<rparr>"

text \<open>
  \<open>Booking.findByIdAndUpdate(id, updateFields, {new: true, runValidators: true})\<close>:
  the update is cast (an invalid date throws), the validators of the updated paths run,
  and the document found under the identifier is updated and returned (\<open>null\<close> when
  there is none).
\<close>

definition Booking_findByIdAndUpdate ::
  "objid \<Rightarrow> booking_update \<Rightarrow> booking_db \<Rightarrow> (error + booking option) \<times> booking_db" where
  "Booking_findByIdAndUpdate bid u db =
     (case cast_update u of
        None \<Rightarrow> (Inl CastError, db)
      | Some f \<Rightarrow>
          if \<not> set_valid f then (Inl ValidationError, db)
          else (case bookings db bid of
                  None \<Rightarrow> (Inr None, db)
                | Some b \<Rightarrow>
                    (Inr (Some (merge_set f b)),
                     db\<lparr>bookings := (bookings db)(bid \<mapsto> merge_set f b)\<rparr>)))"

definition updateBooking ::
  "user \<Rightarrow> objid \<Rightarrow> booking_update \<Rightarrow> booking_db \<Rightarrow> (error + nat \<times> booking option) \<times> booking_db" where
  "updateBooking req_user bid body db =
     (case bookings db bid of
        None \<Rightarrow> (Inl (ErrorResponse [Lit ''Booking not found with id of '', Id bid] 404), db)
      | Some booking \<Rightarrow>
          if booking_client booking \<noteq> user_id req_user \<and> user_role req_user \<noteq> ''admin''
          then (Inl (ErrorResponse
                  [Lit ''User '', Id (user_id req_user),
                   Lit '' is not authorized to update this booking''] 401), db)
          else if booking_status booking \<in> set [''confirmed'', ''completed'']
                  \<and> user_role req_user \<noteq> ''admin''
          then (Inl (ErrorResponse
                  [Lit ''Cannot update a booking that is already '', Lit (booking_status booking)] 400),
                db)
          else
            (case Booking_findByIdAndUpdate bid body db of
               (Inl e, db') \<Rightarrow> (Inl e, db')
             | (Inr booking', db') \<Rightarrow> (Inr (200, booking'), db')))"

subsection \<open>\<open>cancelBooking\<close>\<close>

text \<open>
  The external calendar service is the parameter \<open>calendly_post\<close>: whether the
  cancellation request for an event id, with a reason, is answered or throws.
  \<open>api_key\<close> is the environment's \<open>CALENDLY_API_KEY\<close>. A string is truthy when it is
  present and not empty; \<open>req.body.cancellationReason || 'Cancelled by user'\<close> takes the
  default for an absent or empty reason.
\<close>

definition truthy :: "string option \<Rightarrow> bool" where
  "truthy v = (case v of None \<Rightarrow> False | Some s \<Rightarrow> s \<noteq> [])"

definition cancelBooking ::
  "(string \<Rightarrow> string \<Rightarrow> bool) \<Rightarrow> string option \<Rightarrow> user \<Rightarrow> objid \<Rightarrow> string option \<Rightarrow> booking_db
     \<Rightarrow> (error + nat \<times> booking) \<times> booking_db" where
  "cancelBooking calendly_post api_key req_user bid cancellationReason db =
     (case bookings db bid of
        None \<Rightarrow> (Inl (ErrorResponse [Lit ''Booking not found with id of '', Id bid] 404), db)
      | Some booking \<Rightarrow>
          if booking_client booking \<noteq> user_id req_user \<and> user_role req_user \<noteq> ''admin''
          then (Inl (ErrorResponse
                  [Lit ''User '', Id (user_id req_user),
                   Lit '' is not authorized to cancel this booking''] 401), db)
          else if booking_status booking = ''completed''
          then (Inl (ErrorResponse [Lit ''Cannot cancel a completed booking''] 400), db)
          else
            (case Booking_save bid (booking\<lparr>booking_status := ''cancelled''\<rparr>) db of
               (Inl e, db') \<Rightarrow> (Inl e, db')
             | (Inr saved, db') \<Rightarrow>
                 (case booking_calendlyEventId saved of
                    Some event \<Rightarrow>
                      if event \<noteq> [] \<and> truthy api_key
                      then
                        (let reason = (case cancellationReason of
                                         None \<Rightarrow> ''Cancelled by user''
                                       | Some r \<Rightarrow> if r = [] then ''Cancelled by user'' else r);
                             sent = db'\<lparr>calendly_calls := calendly_calls db' @ [(event, reason)]\<rparr>
                         in if calendly_post event reason
                            then (Inr (200, saved), sent)
                            else (Inr (200, saved),
                                  sent\<lparr>console_errors :=
                                         console_errors sent @ [''Failed to cancel Calendly event:'']\<rparr>))
                      else (Inr (200, saved), db')
                  | None \<Rightarrow> (Inr (200, saved), db'))))"

section \<open>Login\<close>

text \<open>
  The stored user, as \<open>login\<close> reads it with \<open>select('+password')\<close>. The users
  collection is searched by \<open>email\<close>. The password hash comparison
  (\<open>bcrypt.compare\<close>) and the token signer are parameters of the model.
\<close>

record account =
  account_id :: objid
  account_email :: string
  account_password :: string
  account_role :: string

record login_body =
  login_email :: "string option"
  login_password :: "string option"

definition sendTokenResponse ::
  "(objid \<Rightarrow> string \<Rightarrow> string option) \<Rightarrow> account \<Rightarrow> nat \<Rightarrow> error + nat \<times> string" where
  "sendTokenResponse sign u statusCode =
     (case sign (account_id u) (account_role u) of
        None \<Rightarrow> Inl TokenError
      | Some token \<Rightarrow> Inr (statusCode, token))"

definition login ::
  "(string \<Rightarrow> string \<Rightarrow> bool) \<Rightarrow> (objid \<Rightarrow> string \<Rightarrow> string option) \<Rightarrow> account list \<Rightarrow> login_body
     \<Rightarrow> error + nat \<times> string" where
  "login compare sign users body =
     (case (login_email body, login_password body) of
        (Some email, Some password) \<Rightarrow>
          if email = [] \<or> password = []
          then Inl (ErrorResponse [Lit ''Please provide an email and password''] 400)
          else
            (case find (\<lambda>u. account_email u = email) users of
               None \<Rightarrow> Inl (ErrorResponse [Lit ''Invalid credentials''] 401)
             | Some u \<Rightarrow>
                 if \<not> compare password (account_password u)
                 then Inl (ErrorResponse [Lit ''Invalid credentials''] 401)
                 else sendTokenResponse sign u 200)
      | _ \<Rightarrow> Inl (ErrorResponse [Lit ''Please provide an email and password''] 400))"

section \<open>Stores whose documents satisfy their schema\<close>

definition orders_valid :: "shop \<Rightarrow> bool" where
  "orders_valid db \<longleftrightarrow> (\<forall>oid ord. shop_orders db oid = Some ord \<longrightarrow> order_valid ord)"

definition bookings_valid :: "booking_db \<Rightarrow> bool" where
  "bookings_valid db \<longleftrightarrow> (\<forall>bid b. bookings db bid = Some b \<longrightarrow> booking_valid b)"

section \<open>Example data\<close>

definition ex_user :: user where
  "ex_user = \<lparr>user_id = 7, user_role = ''user''\<rparr>"

definition ex_address :: address where
  "ex_address =
     \<lparr>address_name = ''A. Client'', address_street = ''1 Main St'', address_city = ''Springfield'',
      address_state = ''IL'', address_zipCode = ''62701'', address_country = ''US'',
      address_phone = ''555-0100''\<rparr>"

definition ex_print :: product where
  "ex_print = \<lparr>product_name = ''Print'', product_price = 50, product_stock = 5\<rparr>"

definition ex_frame :: product where
  "ex_frame = \<lparr>product_name = ''Frame'', product_price = 30, product_stock = 1\<rparr>"

definition ex_shop :: shop where
  "ex_shop = \<lparr>shop_products = [1 \<mapsto> ex_print, 2 \<mapsto> ex_frame], shop_orders = Map.empty,
              shop_next_id = 0\<rparr>"

definition ex_body :: "cart_item list \<Rightarrow> order_body" where
  "ex_body items = \<lparr>body_products = Some items, body_shippingAddress = Some ex_address\<rparr>"

definition ex_cart2 :: "cart_item list" where
  "ex_cart2 = [\<lparr>cart_product = 1, cart_quantity = 2\<rparr>, \<lparr>cart_product = 2, cart_quantity = 1\<rparr>]"

definition ex_order2 :: order where
  "ex_order2 = 
     \<lparr>order_user = 7,
       order_products = [\<lparr>item_product = 1, item_name = ''Print'', item_price = 50, item_quantity = 2\<rparr>,
                         \<lparr>item_product = 2, item_name = ''Frame'', item_price = 30, item_quantity = 1\<rparr>],
       order_shippingAddress = ex_address, order_paymentInfo = default_paymentInfo,
       order_subtotal = 130, order_tax = 13, order_shipping = 0, order_total = 143,
       order_status = ''pending''\<rparr>"

text \<open>
  A shop whose prices are not dyadic: a card at 5.4 and an album at 35.2, stored as the
  doubles nearest to them; a cart of twelve cards and one album; and the order
  \<open>createOrder\<close> makes of it on doubles, with subtotal 100.00000000000001, tax
  10.000000000000002 and total 110.00000000000001.
\<close>

definition ex_stationery :: "(number \<Rightarrow> number) \<Rightarrow> shop" where
  "ex_stationery rnd =
     \<lparr>shop_products =
        [3 \<mapsto> \<lparr>product_name = ''Card'', product_price = rnd (27 / 5), product_stock = 20\<rparr>,
         4 \<mapsto> \<lparr>product_name = ''Album'', product_price = rnd (176 / 5), product_stock = 4\<rparr>],
      shop_orders = Map.empty, shop_next_id = 0\<rparr>"

definition ex_cart13 :: "cart_item list" where
  "ex_cart13 = [\<lparr>cart_product = 3, cart_quantity = 12\<rparr>, \<lparr>cart_product = 4, cart_quantity = 1\<rparr>]"

definition ex_order13 :: order where
  "ex_order13 =
     \<lparr>order_user = 7,
       order_products =
         [\<lparr>item_product = 3, item_name = ''Card'',
           item_price = 3039929748475085 / 562949953421312, item_quantity = 12\<rparr>,
          \<lparr>item_product = 4, item_name = ''Album'',
           item_price = 2476979795053773 / 70368744177664, item_quantity = 1\<rparr>],
       order_shippingAddress = ex_address, order_paymentInfo = default_paymentInfo,
       order_subtotal = 7036874417766401 / 70368744177664,
       order_tax = 5629499534213121 / 562949953421312,
       order_shipping = 0,
       order_total = 7740561859543041 / 70368744177664,
       order_status = ''pending''\<rparr>"


definition ex_requests :: two_requests where
  "ex_requests =
     \<lparr>first_user = ex_user, first_address = ex_address,
      second_user = \<lparr>user_id = 8, user_role = ''user''\<rparr>, second_address = ex_address\<rparr>"

definition ex_overlap :: "turn list" where
  "ex_overlap = [First, Second, First, Second, First, Second]"




definition ex_booking :: "string \<Rightarrow> booking" where
  "ex_booking status =
     \<lparr>booking_client = 7, booking_sessionType = ''portrait'', booking_date = 1767225600000,
      booking_timeSlot = (1767261600000, 1767265200000), booking_location = ''Studio'',
      booking_additionalDetails =
        \<lparr>details_numberOfPeople = Some 2, details_specialRequirements = None,
         details_preferredStyle = None, details_outfitChanges = None\<rparr>,
      booking_photographer = None, booking_status = status,
      booking_payment =
        \<lparr>payment_amount = 200, payment_deposit = 50, payment_isPaid = False,
         payment_method = ''credit_card''\<rparr>,
      booking_calendlyEventId = Some ''evt-1'', booking_notes = None\<rparr>"

definition ex_bookings :: "string \<Rightarrow> booking_db" where
  "ex_bookings status = \<lparr>bookings = [1 \<mapsto> ex_booking status], calendly_calls = [], console_errors = []\<rparr>"

definition ex_admin :: user where
  "ex_admin = \<lparr>user_id = 1, user_role = ''admin''\<rparr>"

definition ex_stranger :: user where
  "ex_stranger = \<lparr>user_id = 9, user_role = ''user''\<rparr>"

definition ex_accounts :: "account list" where
  "ex_accounts =
     [\<lparr>account_id = 7, account_email = ''client@example.com'', account_password = ''hash-of-secret'',
       account_role = ''user''\<rparr>]"

definition ex_compare :: "string \<Rightarrow> string \<Rightarrow> bool" where
  "ex_compare entered stored \<longleftrightarrow> stored = ''hash-of-'' @ entered"

definition ex_sign :: "objid \<Rightarrow> string \<Rightarrow> string option" where
  "ex_sign uid role = Some (''token-for-'' @ role)"

definition ex_update :: booking_update where
  "ex_update =
     \<lparr>update_sessionType = None, update_date = None, update_timeSlot = None,
      update_location = Some ''  Beach '', update_additionalDetails = None,
      update_notes = Some ''Bring props''\<rparr>"

definition ex_set :: booking_set where
  "ex_set =
     \<lparr>set_sessionType = None, set_date = None, set_timeSlot = None,
      set_location = Some ''Beach'', set_additionalDetails = None,
      set_notes = Some ''Bring props''\<rparr>"

definition ex_update_unknown_type :: booking_update where
  "ex_update_unknown_type =
     \<lparr>update_sessionType = Some ''boudoir'', update_date = None, update_timeSlot = None,
      update_location = None, update_additionalDetails = None, update_notes = None\<rparr>"

definition ex_update_invalid_date :: booking_update where
  "ex_update_invalid_date =
     \<lparr>update_sessionType = None, update_date = Some InvalidDate, update_timeSlot = None,
      update_location = None, update_additionalDetails = None, update_notes = None\<rparr>"

text \<open>An update whose location is the single character U+00A0 (no-break space).\<close>

definition ex_update_blank_location :: booking_update where
  "ex_update_blank_location =
     \<lparr>update_sessionType = None, update_date = None, update_timeSlot = None,
      update_location = Some [CHR 0xC2, CHR 0xA0], update_additionalDetails = None,
      update_notes = None\<rparr>"

definition calendly_down :: "string \<Rightarrow> string \<Rightarrow> bool" where
  "calendly_down event reason = False"

definition calendly_up :: "string \<Rightarrow> string \<Rightarrow> bool" where
  "calendly_up event reason = True"

section \<open>Properties of the rounding\<close>

lemma bitlen_powi:
  assumes "0 < (n::int)"
  shows "(2::rat) powi (bitlen n - 1) \<le> of_int n" and "(of_int n :: rat) < 2 powi bitlen n"
proof -
  from bitlen_bounds [OF assms] have lo: "2 ^ nat (bitlen n - 1) \<le> n" and hi: "n < 2 ^ nat (bitlen n)"
    by simp_all
  have one: "1 \<le> bitlen n"
    using assms by (simp add: bitlen_alt_def)
  have "(2::rat) powi (bitlen n - 1) = 2 ^ nat (bitlen n - 1)"
    using one by (simp add: power_int_nonneg_exp)
  also have "\<dots> = of_int (2 ^ nat (bitlen n - 1))" by simp
  also have "\<dots> \<le> of_int n" using lo by (simp only: of_int_le_iff)
  finally show "(2::rat) powi (bitlen n - 1) \<le> of_int n" .
  have "(of_int n :: rat) < of_int (2 ^ nat (bitlen n))" using hi by (simp only: of_int_less_iff)
  also have "\<dots> = 2 ^ nat (bitlen n)" by simp
  also have "\<dots> = 2 powi bitlen n" using one by (simp add: power_int_nonneg_exp)
  finally show "(of_int n :: rat) < 2 powi bitlen n" .
qed

text \<open>
  The exponent of a quotient of two positive integers, from their bit lengths: whatever
  the representation, it lies between the powers of two that enclose the quotient.
\<close>

lemma ratio_bounds:
  fixes a b :: int
  assumes "0 < a" and "0 < b"
  defines "k \<equiv> bitlen a - bitlen b"
  defines "r \<equiv> (if (2::rat) powi k \<le> of_int a / of_int b then k else k - 1)"
  shows "2 powi r \<le> (of_int a / of_int b :: rat)" and "(of_int a / of_int b :: rat) < 2 powi (r + 1)"
proof -
  let ?x = "of_int a / of_int b :: rat"
  have "?x < 2 powi bitlen a / 2 powi (bitlen b - 1)"
    using bitlen_powi [OF assms(1)] bitlen_powi [OF assms(2)] assms(1,2)
    by (intro frac_less) simp_all
  also have "\<dots> = 2 powi (k + 1)"
    by (simp add: k_def power_int_diff [symmetric] algebra_simps)
  finally have hi: "?x < 2 powi (k + 1)" .
  have "2 powi (k - 1) = (2::rat) powi (bitlen a - 1) / 2 powi bitlen b"
    by (simp add: k_def power_int_diff [symmetric] algebra_simps)
  also have "\<dots> \<le> ?x"
    using bitlen_powi [OF assms(1)] bitlen_powi [OF assms(2)] assms(1,2)
    by (intro frac_le) simp_all
  finally have lo: "2 powi (k - 1) \<le> ?x" .
  show "2 powi r \<le> ?x"
    using lo by (simp add: r_def)
  show "?x < 2 powi (r + 1)"
    using hi by (simp add: r_def)
qed

lemma exponent_bounds:
  assumes "x \<noteq> 0"
  shows "2 powi exponent x \<le> \<bar>x\<bar>" and "\<bar>x\<bar> < 2 powi (exponent x + 1)"
proof -
  obtain p q where pq: "quotient_of \<bar>x\<bar> = (p, q)" by (cases "quotient_of \<bar>x\<bar>")
  have q: "0 < q" by (rule quotient_of_denom_pos [OF pq])
  have x: "\<bar>x\<bar> = of_int p / of_int q" by (rule quotient_of_div [OF pq])
  have "0 < \<bar>x\<bar>" using assms by simp
  with x q have p: "0 < p"
    by (simp add: zero_less_divide_iff)
  have e: "exponent x = (if (2::rat) powi (bitlen p - bitlen q) \<le> \<bar>x\<bar>
                         then bitlen p - bitlen q else bitlen p - bitlen q - 1)"
    by (simp add: exponent_def pq Let_def)
  show "2 powi exponent x \<le> \<bar>x\<bar>"
    unfolding e using ratio_bounds(1) [OF p q] by (simp only: x [symmetric])
  show "\<bar>x\<bar> < 2 powi (exponent x + 1)"
    unfolding e using ratio_bounds(2) [OF p q] by (simp only: x [symmetric])
qed

lemma exponent_eqI:
  assumes "2 powi k \<le> \<bar>x\<bar>" and "\<bar>x\<bar> < 2 powi (k + 1)"
  shows "exponent x = k"
proof -
  have pos: "0 < (2::rat) powi k" by simp
  from pos assms(1) have "0 < \<bar>x\<bar>" by (rule less_le_trans)
  then have nz: "x \<noteq> 0" by simp
  note b = exponent_bounds [OF nz]
  have less: "i < j" if "(2::rat) powi i < 2 powi j" for i j :: int
  proof (rule ccontr)
    assume "\<not> i < j"
    then have "(2::rat) powi j \<le> 2 powi i"
      by (intro power_int_increasing) simp_all
    with that show False by simp
  qed
  have "k < exponent x + 1"
    using assms(1) b(2) by (intro less) simp
  moreover have "exponent x < k + 1"
    using assms(2) b(1) by (intro less) simp
  ultimately show ?thesis by simp
qed

lemma exponent_ratio:
  fixes a b :: int
  assumes "0 < a" and "0 < b"
  shows "exponent (of_int a / of_int b)
           = (if (2::rat) powi (bitlen a - bitlen b) \<le> of_int a / of_int b
              then bitlen a - bitlen b else bitlen a - bitlen b - 1)"
proof -
  have "\<bar>of_int a / of_int b :: rat\<bar> = of_int a / of_int b"
    using assms by simp
  then show ?thesis
    using ratio_bounds [OF assms] by (intro exponent_eqI) simp_all
qed

lemma exponent_numeral_div:
  "exponent (numeral a / numeral b)
     = (if (2::rat) powi (bitlen (numeral a) - bitlen (numeral b)) \<le> numeral a / numeral b
        then bitlen (numeral a) - bitlen (numeral b) else bitlen (numeral a) - bitlen (numeral b) - 1)"
  using exponent_ratio [of "numeral a" "numeral b"] by simp

lemma exponent_numeral: "exponent (numeral a) = bitlen (numeral a) - 1"
  using exponent_ratio [of "numeral a" 1] bitlen_powi(1) [of "numeral a"]
  by (simp add: bitlen_alt_def)

lemma exponent_one_div:
  "exponent (1 / numeral b)
     = (if (2::rat) powi (1 - bitlen (numeral b)) \<le> 1 / numeral b
        then 1 - bitlen (numeral b) else 1 - bitlen (numeral b) - 1)"
  using exponent_ratio [of 1 "numeral b"] by (simp add: bitlen_alt_def)

lemma exponent_one: "exponent 1 = 0"
  by (rule exponent_eqI) simp_all

lemma bitlen_numeral: "bitlen (numeral n) = bitlen (numeral n div 2) + 1"
  by (subst compute_bitlen) simp

lemma bitlen_one: "bitlen 1 = 1"
  by (subst compute_bitlen) simp

lemma floor_rat_numeral:
  "\<lfloor>(numeral a :: rat) / numeral b\<rfloor> = numeral a div numeral b"
  using floor_divide_of_int_eq [of "numeral a" "numeral b", where ?'a = rat] by simp

lemmas round53_eval = round53_def round_half_even_def Let_def exponent_numeral_div exponent_numeral
  exponent_one_div exponent_one bitlen_numeral bitlen_one floor_rat_numeral

text \<open>The doubles of some decimal literals, and small integers, which are doubles.\<close>

lemma round53_examples:
  "round53 (1 / 10) = 3602879701896397 / 36028797018963968"
  "round53 (27 / 5) = 3039929748475085 / 562949953421312"
  "round53 (176 / 5) = 2476979795053773 / 70368744177664"
  "round53 (3 * round53 (1 / 10)) = 1351079888211149 / 4503599627370496"
  "round53 (3 * round53 (1 / 10)) \<noteq> round53 (3 / 10)"
  "round53 100 = 100"
  "round53 (20 - 12) = 8"
  by (simp_all add: round53_eval)

section \<open>Properties of the stores\<close>

lemmas ex_defs = ex_user_def ex_body_def ex_shop_def ex_print_def ex_frame_def ex_address_def

lemmas order_defs = Order_create_def priced_order_def order_valid_def order_status_enum_def
  payment_status_enum_def payment_type_enum_def default_paymentInfo_def

text \<open>
  The handlers write a document only after it has passed the validators, so a store whose
  documents satisfy their schema stays so. This is the assumption on stored documents in
  the properties of \<open>save\<close>-based handlers.
\<close>

lemma Order_create_valid:
  "orders_valid db \<Longrightarrow> orders_valid (snd (Order_create ord db))"
  by (auto simp: orders_valid_def Order_create_def)

lemma Order_save_valid:
  "orders_valid db \<Longrightarrow> orders_valid (snd (Order_save oid ord db))"
  by (auto simp: orders_valid_def Order_save_def)

lemma orders_valid_products [simp]:
  "orders_valid (db\<lparr>shop_products := ps\<rparr>) = orders_valid db"
  by (simp add: orders_valid_def)

lemma createOrder_valid:
  assumes "orders_valid db"
  shows "orders_valid (snd (createOrder req_user body db))"
proof -
  have "orders_valid (snd (case Order_create ord (db\<lparr>shop_products := ps\<rparr>) of
                             (Inl e, db') \<Rightarrow> (Inl e :: error + nat \<times> objid \<times> order, db')
                           | (Inr (oid, ord), db') \<Rightarrow> (Inr (201, oid, ord), db')))" for ord ps
    using Order_create_valid [of "db\<lparr>shop_products := ps\<rparr>" ord] assms
    by (auto split: prod.splits sum.splits)
  with assms show ?thesis
    by (auto simp: createOrder_def split: option.splits prod.splits sum.splits)
qed

lemma updateOrderStatus_valid:
  assumes "orders_valid db"
  shows "orders_valid (snd (updateOrderStatus oid body_status db))"
  using assms Order_save_valid [OF assms]
  by (auto simp: updateOrderStatus_def split: option.splits prod.splits sum.splits)
     (metis snd_conv)+

lemma handleStripeWebhook_valid:
  assumes "orders_valid db"
  shows "orders_valid (snd (handleStripeWebhook constructEvent raw sig secret db))"
proof -
  have saved: "orders_valid db'" if "Order_save oid ord db = (r, db')" for oid ord r db'
    using Order_save_valid [OF assms, of oid ord] that by simp
  show ?thesis
    using assms
    by (auto simp: handleStripeWebhook_def dest: saved
        split: option.splits prod.splits sum.splits id_value.splits)
qed

lemma Booking_save_valid:
  "bookings_valid db \<Longrightarrow> bookings_valid (snd (Booking_save bid b db))"
  by (auto simp: bookings_valid_def Booking_save_def)

lemma updateBookingStatus_valid:
  assumes "bookings_valid db"
  shows "bookings_valid (snd (updateBookingStatus bid body_status db))"
  using assms Booking_save_valid [OF assms]
  by (auto simp: updateBookingStatus_def split: option.splits prod.splits sum.splits)
     (metis snd_conv)+

lemma merge_set_valid:
  "booking_valid b \<Longrightarrow> set_valid f \<Longrightarrow> booking_valid (merge_set f b)"
  by (auto simp: booking_valid_def set_valid_def merge_set_def split: option.splits)

lemma updateBooking_valid:
  assumes "bookings_valid db"
  shows "bookings_valid (snd (updateBooking req_user bid body db))"
  using assms
  by (auto simp: updateBooking_def Booking_findByIdAndUpdate_def bookings_valid_def merge_set_valid
      split: option.splits)

lemma bookings_valid_log [simp]:
  "bookings_valid (db\<lparr>calendly_calls := cs\<rparr>) = bookings_valid db"
  "bookings_valid (db\<lparr>console_errors := es\<rparr>) = bookings_valid db"
  by (simp_all add: bookings_valid_def)

lemma cancelBooking_valid:
  assumes "bookings_valid db"
  shows "bookings_valid (snd (cancelBooking calendly_post api_key req_user bid reason db))"
proof -
  have saved: "bookings_valid db'" if "Booking_save bid b db = (r, db')" for b r db'
    using Booking_save_valid [OF assms, of bid b] that by simp
  show ?thesis
    using assms
    by (auto simp: cancelBooking_def Let_def dest: saved split: option.splits prod.splits sum.splits)
qed

section \<open>Properties of the order workflow\<close>

subsection \<open>The loop of \<open>createOrder\<close>\<close>

lemma snapshot_ofI:
  "ps (item_product l) = Some p \<Longrightarrow> item_name l = product_name p
     \<Longrightarrow> item_price l = product_price p \<Longrightarrow> snapshot_of ps l"
  by (simp add: snapshot_of_def)

lemma snapshot_of_save:
  "ps k = Some p \<Longrightarrow> snapshot_of (ps(k \<mapsto> p\<lparr>product_stock := s\<rparr>)) l \<Longrightarrow> snapshot_of ps l"
  by (auto simp: snapshot_of_def split: option.splits if_splits)

lemma process_items_fp_lines:
  "process_items_fp rnd items (ois, st) ps = (Inr (ois', st'), ps') \<Longrightarrow>
     \<exists>new. ois' = ois @ new
       \<and> st' = foldl (\<lambda>s l. rnd (s + rnd (item_price l * item_quantity l))) st new
       \<and> list_all (snapshot_of ps) new
       \<and> map item_product new = map cart_product items
       \<and> map item_quantity new = map cart_quantity items"
proof (induction items arbitrary: ois st ps)
  case Nil
  then show ?case by simp
next
  case (Cons item rest)
  from Cons.prems obtain p where p: "ps (cart_product item) = Some p"
    by (auto split: option.splits)
  from Cons.prems p have ok: "\<not> product_stock p < cart_quantity item"
    by (auto split: if_splits)
  let ?l = "\<lparr>item_product = cart_product item, item_name = product_name p,
              item_price = product_price p, item_quantity = cart_quantity item\<rparr>"
  let ?ps = "ps(cart_product item \<mapsto> p\<lparr>product_stock := rnd (product_stock p - cart_quantity item)\<rparr>)"
  from Cons.prems p ok have
    "process_items_fp rnd rest (ois @ [?l], rnd (st + rnd (product_price p * cart_quantity item))) ?ps
       = (Inr (ois', st'), ps')"
    by simp
  from Cons.IH [OF this] obtain new where new:
    "ois' = (ois @ [?l]) @ new"
    "st' = foldl (\<lambda>s l. rnd (s + rnd (item_price l * item_quantity l)))
             (rnd (st + rnd (product_price p * cart_quantity item))) new"
    "list_all (snapshot_of ?ps) new"
    "map item_product new = map cart_product rest"
    "map item_quantity new = map cart_quantity rest"
    by blast
  have "list_all (snapshot_of ps) new"
    using new(3) p by (auto simp: list_all_iff intro: snapshot_of_save)
  moreover have "snapshot_of ps ?l"
    using p by (simp add: snapshot_of_def)
  ultimately show ?case
    using new by (intro exI [of _ "?l # new"]) simp
qed

text \<open>Without rounding, the computation on doubles is the computation in exact arithmetic.\<close>

lemma process_items_fp_exact:
  "process_items_fp (\<lambda>x. x) items acc ps = process_items items acc ps"
proof (induction items arbitrary: acc ps)
  case Nil
  show ?case by simp
next
  case (Cons item rest)
  obtain ois st where acc: "acc = (ois, st)" by (cases acc)
  show ?case
  proof (cases "ps (cart_product item)")
    case None
    then show ?thesis unfolding acc by simp
  next
    case (Some p)
    show ?thesis
    proof (cases "product_stock p < cart_quantity item")
      case True
      with Some show ?thesis unfolding acc by simp
    next
      case False
      let ?acc = "(ois @ [\<lparr>item_product = cart_product item, item_name = product_name p,
                    item_price = product_price p, item_quantity = cart_quantity item\<rparr>],
                   st + product_price p * cart_quantity item)"
      let ?ps = "ps(cart_product item \<mapsto> p\<lparr>product_stock := product_stock p - cart_quantity item\<rparr>)"
      have "process_items_fp (\<lambda>x. x) (item # rest) acc ps = process_items_fp (\<lambda>x. x) rest ?acc ?ps"
        using Some False unfolding acc by simp
      also have "\<dots> = process_items rest ?acc ?ps"
        by (rule Cons.IH)
      also have "\<dots> = process_items (item # rest) acc ps"
        using Some False unfolding acc by simp
      finally show ?thesis .
    qed
  qed
qed

lemma priced_order_fp_exact:
  "priced_order_fp (\<lambda>x. x) req_user addr ois sub = priced_order req_user addr ois sub"
  by (simp add: priced_order_fp_def priced_order_def)

lemma createOrder_fp_exact: "createOrder_fp (\<lambda>x. x) req_user body db = createOrder req_user body db"
  unfolding createOrder_fp_def createOrder_def process_items_fp_exact priced_order_fp_exact ..




lemma createOrder_fp_success:
  assumes "createOrder_fp rnd req_user body db = (Inr (st, oid, ord), db')"
  shows "st = 201 \<and> oid = shop_next_id db \<and> shop_next_id db' = Suc oid
    \<and> shop_orders db' oid = Some ord \<and> order_valid ord
    \<and> (\<exists>products. body_products body = Some products
          \<and> map item_product (order_products ord) = map cart_product products
          \<and> map item_quantity (order_products ord) = map cart_quantity products)
    \<and> order_subtotal ord
        = foldl (\<lambda>s l. rnd (s + rnd (item_price l * item_quantity l))) 0 (order_products ord)
    \<and> order_tax ord = rnd (order_subtotal ord * rnd (1 / 10))
    \<and> order_shipping ord = (if order_subtotal ord > 100 then 0 else 10)
    \<and> order_total ord = rnd (rnd (order_subtotal ord + order_tax ord) + order_shipping ord)
    \<and> list_all (snapshot_of (shop_products db)) (order_products ord)"
proof -
  from assms obtain products addr where b: "body_products body = Some products" "products \<noteq> []"
    "body_shippingAddress body = Some addr"
    by (auto simp: createOrder_fp_def split: option.splits if_splits)
  from assms b obtain ois sub ps where
    pi: "process_items_fp rnd products ([], 0) (shop_products db) = (Inr (ois, sub), ps)"
    by (auto simp: createOrder_fp_def split: option.splits if_splits prod.splits sum.splits)
  from process_items_fp_lines [OF pi] have lines:
     "sub = foldl (\<lambda>s l. rnd (s + rnd (item_price l * item_quantity l))) 0 ois"
     "list_all (snapshot_of (shop_products db)) ois"
     "map item_product ois = map cart_product products"
     "map item_quantity ois = map cart_quantity products"
    by auto
  from assms b pi show ?thesis using lines
    by (auto simp: createOrder_fp_def Order_create_def priced_order_fp_def Let_def split: if_splits)
qed

text \<open>
  \<open>createOrder\<close> writes one order, under the next identifier; the orders already stored
  are not touched.
\<close>

lemma createOrder_fp_orders:
  "k \<noteq> shop_next_id db \<Longrightarrow>
     shop_orders (snd (createOrder_fp rnd req_user body db)) k = shop_orders db k"
  by (simp add: createOrder_fp_def Order_create_def split: option.splits prod.splits sum.splits)

text \<open>
  C1. Whenever \<open>createOrder\<close> succeeds, the order it persisted has, in the arithmetic
  of the program (every operation rounded by \<open>rnd\<close>, which is \<open>round53\<close> for doubles
  and the identity for exact arithmetic):
  subtotal = the sum, accumulated from 0 in the order of the lines, of price times
  quantity; tax = subtotal times 0.1; shipping = 0 if subtotal > 100 and 10 otherwise;
  total = subtotal + tax + shipping. The lines are the cart's products and quantities,
  each with the name and the price the product had in the store when the order was
  created. The order holds copies of name and price: whatever the products collection is
  changed to afterwards, and whatever order is created after that, the persisted order
  stays as it is.
\<close>

theorem createOrder_amounts_and_snapshot:
  assumes "createOrder_fp rnd req_user body db = (Inr (st, oid, ord), db')"
  shows "shop_orders db' oid = Some ord
    \<and> order_subtotal ord
        = foldl (\<lambda>s l. rnd (s + rnd (item_price l * item_quantity l))) 0 (order_products ord)
    \<and> order_tax ord = rnd (order_subtotal ord * rnd (1 / 10))
    \<and> order_shipping ord = (if order_subtotal ord > 100 then 0 else 10)
    \<and> order_total ord = rnd (rnd (order_subtotal ord + order_tax ord) + order_shipping ord)
    \<and> (\<exists>products. body_products body = Some products
          \<and> map item_product (order_products ord) = map cart_product products
          \<and> map item_quantity (order_products ord) = map cart_quantity products)
    \<and> (\<forall>l \<in> set (order_products ord).
          \<exists>p. shop_products db (item_product l) = Some p
             \<and> item_name l = product_name p \<and> item_price l = product_price p)
    \<and> (\<forall>ps req_user' body'.
          shop_orders (snd (createOrder_fp rnd req_user' body' (db'\<lparr>shop_products := ps\<rparr>))) oid
            = Some ord)"
proof -
  note s = createOrder_fp_success [OF assms]
  have snap: "\<forall>l \<in> set (order_products ord).
          \<exists>p. shop_products db (item_product l) = Some p
             \<and> item_name l = product_name p \<and> item_price l = product_price p"
  proof
    fix l assume "l \<in> set (order_products ord)"
    with s have "snapshot_of (shop_products db) l"
      by (simp add: list_all_iff)
    then show "\<exists>p. shop_products db (item_product l) = Some p
             \<and> item_name l = product_name p \<and> item_price l = product_price p"
      by (auto simp: snapshot_of_def split: option.splits)
  qed
  from s have stored: "shop_orders db' oid = Some ord" and next_id: "shop_next_id db' = Suc oid"
    by blast+
  have later: "shop_orders (snd (createOrder_fp rnd req_user' body' (db'\<lparr>shop_products := ps\<rparr>))) oid
                 = Some ord" for ps req_user' body'
  proof -
    have "oid \<noteq> shop_next_id (db'\<lparr>shop_products := ps\<rparr>)"
      using next_id by simp
    from createOrder_fp_orders [OF this] show ?thesis
      using stored by simp
  qed
  from s snap later show ?thesis by blast
qed

theorem createOrder_amounts_and_snapshot_witness:
  "createOrder_fp round53 ex_user (ex_body ex_cart13) (ex_stationery round53)
     = (Inr (201, 0, ex_order13),
        \<lparr>shop_products =
           [3 \<mapsto> \<lparr>product_name = ''Card'', product_price = 3039929748475085 / 562949953421312,
                  product_stock = 8\<rparr>,
            4 \<mapsto> \<lparr>product_name = ''Album'', product_price = 2476979795053773 / 70368744177664,
                  product_stock = 3\<rparr>],
         shop_orders = [0 \<mapsto> ex_order13], shop_next_id = 1\<rparr>)
   \<and> order_subtotal ex_order13 = 100 + 1 / 2 ^ 46
   \<and> order_subtotal ex_order13
       = round53 (round53 (0 + round53 (round53 (27 / 5) * 12)) + round53 (round53 (176 / 5) * 1))
   \<and> order_tax ex_order13 = round53 (order_subtotal ex_order13 * round53 (1 / 10))
   \<and> order_shipping ex_order13 = 0
   \<and> order_total ex_order13
       = round53 (round53 (order_subtotal ex_order13 + order_tax ex_order13) + 0)
   \<and> list_all (snapshot_of (shop_products (ex_stationery round53))) (order_products ex_order13)
   \<and> shop_orders
         (snd (createOrder_fp round53 ex_user (ex_body ex_cart13)
                 \<lparr>shop_products =
                    [3 \<mapsto> \<lparr>product_name = ''Postcard'', product_price = 6, product_stock = 20\<rparr>],
                  shop_orders = [0 \<mapsto> ex_order13], shop_next_id = 1\<rparr>)) 0
       = Some ex_order13"
proof -
  let ?db' = "\<lparr>shop_products =
           [3 \<mapsto> \<lparr>product_name = ''Card'', product_price = 3039929748475085 / 562949953421312,
                  product_stock = 8\<rparr>,
            4 \<mapsto> \<lparr>product_name = ''Album'', product_price = 2476979795053773 / 70368744177664,
                  product_stock = 3\<rparr>],
         shop_orders = [0 \<mapsto> ex_order13], shop_next_id = 1\<rparr>"
  have run: "createOrder_fp round53 ex_user (ex_body ex_cart13) (ex_stationery round53)
     = (Inr (201, 0, ex_order13), ?db')"
    by (simp add: createOrder_fp_def priced_order_fp_def ex_stationery_def ex_cart13_def
        ex_order13_def ex_user_def ex_body_def Order_create_def order_valid_def
        order_status_enum_def payment_status_enum_def payment_type_enum_def
        default_paymentInfo_def round53_eval)
  note facts = createOrder_amounts_and_snapshot [OF run]
  have sub: "order_subtotal ex_order13 = 100 + 1 / 2 ^ 46"
    by (simp add: ex_order13_def)
  have fold: "order_subtotal ex_order13
       = round53 (round53 (0 + round53 (round53 (27 / 5) * 12)) + round53 (round53 (176 / 5) * 1))"
    by (simp add: ex_order13_def round53_eval)
  have ship: "order_shipping ex_order13 = 0"
    by (simp add: ex_order13_def)
  have snap: "list_all (snapshot_of (shop_products (ex_stationery round53))) (order_products ex_order13)"
    unfolding list_all_iff using facts by (blast intro: snapshot_ofI)
  from facts have later: "shop_orders
         (snd (createOrder_fp round53 ex_user (ex_body ex_cart13)
                 (?db'\<lparr>shop_products :=
                    [3 \<mapsto> \<lparr>product_name = ''Postcard'', product_price = 6, product_stock = 20\<rparr>]\<rparr>))) 0
       = Some ex_order13"
    by blast
  from facts have tax: "order_tax ex_order13 = round53 (order_subtotal ex_order13 * round53 (1 / 10))"
    by blast
  from facts ship have total: "order_total ex_order13
       = round53 (round53 (order_subtotal ex_order13 + order_tax ex_order13) + 0)"
    by simp
  from later have later': "shop_orders
         (snd (createOrder_fp round53 ex_user (ex_body ex_cart13)
                 \<lparr>shop_products =
                    [3 \<mapsto> \<lparr>product_name = ''Postcard'', product_price = 6, product_stock = 20\<rparr>],
                  shop_orders = [0 \<mapsto> ex_order13], shop_next_id = 1\<rparr>)) 0
       = Some ex_order13"
    by simp
  from run sub fold tax ship total snap later' show ?thesis
    by (simp only: simp_thms)
qed

text \<open>
  The rounding decides the shipping fee of this cart: in exact arithmetic twelve times
  5.4 plus 35.2 is 100, which is not above 100, and the fee is 10; on doubles the subtotal
  is 100.00000000000001 and the shipping is free.
\<close>

lemma createOrder_rounding_example:
  "map_option order_subtotal
     (created_order (createOrder ex_user (ex_body ex_cart13) (ex_stationery (\<lambda>x. x)))) = Some 100"
  "map_option order_shipping
     (created_order (createOrder ex_user (ex_body ex_cart13) (ex_stationery (\<lambda>x. x)))) = Some 10"
  "map_option order_shipping
     (created_order (createOrder_fp round53 ex_user (ex_body ex_cart13) (ex_stationery round53))) = Some 0"
  by (simp_all add: createOrder_def createOrder_fp_def priced_order_fp_def priced_order_def
      ex_stationery_def ex_cart13_def ex_user_def ex_body_def Order_create_def order_valid_def
      order_status_enum_def payment_status_enum_def payment_type_enum_def
      default_paymentInfo_def created_order_def round53_eval)

text \<open>
  On amounts that need no rounding the two computations agree: the order of two prints at
  50 is the same on doubles as in exact arithmetic.
\<close>

lemma createOrder_fp_two_prints:
  "createOrder_fp round53 ex_user (ex_body [\<lparr>cart_product = 1, cart_quantity = 2\<rparr>]) ex_shop
     = createOrder ex_user (ex_body [\<lparr>cart_product = 1, cart_quantity = 2\<rparr>]) ex_shop"
  by (simp add: createOrder_def createOrder_fp_def priced_order_fp_def priced_order_def
      ex_defs Order_create_def order_valid_def
      order_status_enum_def payment_status_enum_def payment_type_enum_def
      default_paymentInfo_def round53_eval)

text \<open>The order of two prints and a frame, which later examples start from, on doubles.\<close>

lemma ex_order2_created:
  "createOrder_fp round53 ex_user (ex_body ex_cart2) ex_shop
     = (Inr (201, 0, ex_order2),
        \<lparr>shop_products = [1 \<mapsto> ex_print\<lparr>product_stock := 3\<rparr>, 2 \<mapsto> ex_frame\<lparr>product_stock := 0\<rparr>],
         shop_orders = [0 \<mapsto> ex_order2], shop_next_id = 1\<rparr>)"
  by (simp add: createOrder_fp_def priced_order_fp_def ex_defs ex_cart2_def ex_order2_def
      Order_create_def order_valid_def order_status_enum_def payment_status_enum_def
      payment_type_enum_def default_paymentInfo_def round53_eval)



text \<open>
  C2 (as the code has it). With product \<open>P\<close> at price 50 and stock 5, an order of two
  \<open>P\<close> succeeds with subtotal 100, tax 10, shipping 10 and total 120, and leaves \<open>P\<close>
  with stock 3: free shipping starts above 100, not at 100.
\<close>

theorem createOrder_boundary:
  assumes "shop_products db k = Some p" and "product_price p = 50" and "product_stock p = 5"
  shows "\<exists>ord. createOrder req_user
                  \<lparr>body_products = Some [\<lparr>cart_product = k, cart_quantity = 2\<rparr>],
                   body_shippingAddress = Some addr\<rparr> db
                = (Inr (201, shop_next_id db, ord),
                   db\<lparr>shop_products := (shop_products db)(k \<mapsto> p\<lparr>product_stock := 3\<rparr>),
                      shop_orders := (shop_orders db)(shop_next_id db \<mapsto> ord),
                      shop_next_id := Suc (shop_next_id db)\<rparr>)
           \<and> order_subtotal ord = 100 \<and> order_tax ord = 10 \<and> order_shipping ord = 10
           \<and> order_total ord = 120"
  using assms by (simp add: createOrder_def order_defs)

theorem createOrder_boundary_witness:
  "shop_products ex_shop 1 = Some ex_print \<and> product_price ex_print = 50 \<and> product_stock ex_print = 5
   \<and> map_option order_subtotal (created_order (createOrder ex_user (ex_body [\<lparr>cart_product = 1, cart_quantity = 2\<rparr>]) ex_shop)) = Some 100
   \<and> map_option order_total (created_order (createOrder ex_user (ex_body [\<lparr>cart_product = 1, cart_quantity = 2\<rparr>]) ex_shop)) = Some 120
   \<and> stock_of (snd (createOrder ex_user (ex_body [\<lparr>cart_product = 1, cart_quantity = 2\<rparr>]) ex_shop)) 1 = Some 3"
proof -
  have h: "shop_products ex_shop 1 = Some ex_print" "product_price ex_print = 50" "product_stock ex_print = 5"
    by (simp_all add: ex_shop_def ex_print_def)
  from createOrder_boundary [OF h, of ex_user ex_address] h show ?thesis
    by (auto simp: ex_body_def created_order_def stock_of_def)
qed

theorem createOrder_boundary_counterexample:
  "map_option order_subtotal
     (created_order (createOrder ex_user (ex_body [\<lparr>cart_product = 1, cart_quantity = 2\<rparr>]) ex_shop)) = Some 100
   \<and> map_option order_shipping
     (created_order (createOrder ex_user (ex_body [\<lparr>cart_product = 1, cart_quantity = 2\<rparr>]) ex_shop)) = Some 10
   \<and> map_option order_total
     (created_order (createOrder ex_user (ex_body [\<lparr>cart_product = 1, cart_quantity = 2\<rparr>]) ex_shop)) = Some 120
   \<and> \<not> (map_option order_shipping
     (created_order (createOrder ex_user (ex_body [\<lparr>cart_product = 1, cart_quantity = 2\<rparr>]) ex_shop)) = Some 0
        \<and> map_option order_total
     (created_order (createOrder ex_user (ex_body [\<lparr>cart_product = 1, cart_quantity = 2\<rparr>]) ex_shop)) = Some 110)"
  by (simp add: createOrder_def ex_defs order_defs created_order_def)

subsection \<open>A request running alone is \<open>createOrder\<close>\<close>

lemma steps_Finished: "steps n req_user addr (Finished r) db = (Finished r, db)"
  by (induction n) simp_all

lemma steps_alone:
  "steps (2 * length items + 1) req_user addr (Loop items ois sub) db
     = finish req_user addr (process_items items (ois, sub) (shop_products db)) db"
proof (induction items arbitrary: ois sub db)
  case Nil
  show ?case by (simp add: finish_def split: prod.splits sum.splits)
next
  case (Cons item rest)
  show ?case
  proof (cases "shop_products db (cart_product item)")
    case None
    then show ?thesis by (simp add: finish_def steps_Finished)
  next
    case (Some p)
    show ?thesis
    proof (cases "product_stock p < cart_quantity item")
      case True
      with Some show ?thesis by (simp add: finish_def steps_Finished)
    next
      case False
      let ?ois = "ois @ [\<lparr>item_product = cart_product item, item_name = product_name p,
                    item_price = product_price p, item_quantity = cart_quantity item\<rparr>]"
      let ?sub = "sub + product_price p * cart_quantity item"
      let ?ps = "(shop_products db)(cart_product item \<mapsto> p\<lparr>product_stock := product_stock p - cart_quantity item\<rparr>)"
      have two: "steps (2 * length (item # rest) + 1) req_user addr (Loop (item # rest) ois sub) db
              = steps (2 * length rest + 1) req_user addr (Loop rest ?ois ?sub) (db\<lparr>shop_products := ?ps\<rparr>)"
        using Some False by simp
      have pi: "process_items (item # rest) (ois, sub) (shop_products db)
              = process_items rest (?ois, ?sub) ?ps"
        using Some False by simp
      have fin: "finish req_user addr r (db\<lparr>shop_products := ?ps\<rparr>) = finish req_user addr r db" for r
        by (simp add: finish_def split: prod.splits sum.splits)
      show ?thesis
        unfolding two pi Cons.IH by (simp add: fin)
    qed
  qed
qed

lemma steps_alone_createOrder:
  assumes "body_products body = Some products" and "body_shippingAddress body = Some addr"
  shows "steps (2 * length products + 1) req_user addr (start body) db
           = (case createOrder req_user body db of (r, db') \<Rightarrow> (Finished r, db'))"
proof (cases "products = []")
  case True
  with assms show ?thesis
    by (simp add: start_def createOrder_def steps_Finished)
next
  case False
  with assms have st: "start body = Loop products [] 0"
    by (simp add: start_def)
  have "finish req_user addr (process_items products ([], 0) (shop_products db)) db
          = (case createOrder req_user body db of (r, db') \<Rightarrow> (Finished r, db'))"
    using assms False
    by (simp add: finish_def createOrder_def split: prod.splits sum.splits)
  then show ?thesis
    unfolding st steps_alone .
qed

lemma interleave_append:
  "interleave rq (xs @ ys) c = interleave rq ys (interleave rq xs c)"
  by (simp add: interleave_def)

lemma interleave_First:
  "interleave rq (replicate n First) (p1, p2, db)
     = (case steps n (first_user rq) (first_address rq) p1 db of (p1', db') \<Rightarrow> (p1', p2, db'))"
proof (induction n arbitrary: p1 db)
  case 0
  show ?case by (simp add: interleave_def)
next
  case (Suc n)
  have "interleave rq (replicate (Suc n) First) (p1, p2, db)
          = interleave rq (replicate n First) (take_turn rq First (p1, p2, db))"
    by (simp add: interleave_def)
  then show ?case
    by (simp add: Suc.IH split: prod.splits)
qed

lemma interleave_Second:
  "interleave rq (replicate n Second) (p1, p2, db)
     = (case steps n (second_user rq) (second_address rq) p2 db of (p2', db') \<Rightarrow> (p1, p2', db'))"
proof (induction n arbitrary: p2 db)
  case 0
  show ?case by (simp add: interleave_def)
next
  case (Suc n)
  have "interleave rq (replicate (Suc n) Second) (p1, p2, db)
          = interleave rq (replicate n Second) (take_turn rq Second (p1, p2, db))"
    by (simp add: interleave_def)
  then show ?case
    by (simp add: Suc.IH split: prod.splits)
qed

text \<open>
  A schedule that lets the first request run to its answer before the second starts gives
  what two calls of \<open>createOrder\<close>, one after the other, give.
\<close>

lemma interleave_one_after_the_other:
  assumes "body_products b1 = Some items1" and "body_shippingAddress b1 = Some (first_address rq)"
    and "body_products b2 = Some items2" and "body_shippingAddress b2 = Some (second_address rq)"
    and "createOrder (first_user rq) b1 db = (r1, db1)"
    and "createOrder (second_user rq) b2 db1 = (r2, db2)"
  shows "interleave rq (replicate (2 * length items1 + 1) First @ replicate (2 * length items2 + 1) Second)
           (start b1, start b2, db)
         = (Finished r1, Finished r2, db2)"
proof -
  have one: "interleave rq (replicate (2 * length items1 + 1) First) (start b1, start b2, db)
          = (Finished r1, start b2, db1)"
    unfolding interleave_First steps_alone_createOrder [OF assms(1,2)] assms(5) by simp
  have two: "interleave rq (replicate (2 * length items2 + 1) Second) (Finished r1, start b2, db1)
          = (Finished r1, Finished r2, db2)"
    unfolding interleave_Second steps_alone_createOrder [OF assms(3,4)] assms(6) by simp
  show ?thesis
    unfolding interleave_append one two ..
qed

subsection \<open>Two requests for the last item in stock\<close>

lemma priced_order_valid:
  "0 \<le> product_price p \<Longrightarrow> order_valid (priced_order u a [line_of k p] (product_price p))"
  by (simp add: order_defs line_of_def)

lemma step_in_stock:
  assumes "shop_products db k = Some (p\<lparr>product_stock := 1\<rparr>)" and "early k p c"
    and "step u a c db = (c', db')"
  shows "(shop_products db' k = Some (p\<lparr>product_stock := 1\<rparr>) \<and> early k p c')
       \<or> (shop_products db' k = Some (p\<lparr>product_stock := 0\<rparr>) \<and> late u a k p c')"
  using assms by (auto simp: early_def late_def line_of_def)

lemma step_sold:
  assumes "shop_products db k = Some (p\<lparr>product_stock := 0\<rparr>)" and "phase u a k p c"
    and "0 \<le> product_price p" and "step u a c db = (c', db')"
  shows "shop_products db' k = Some (p\<lparr>product_stock := 0\<rparr>) \<and> phase u a k p c'
       \<and> (late u a k p c \<longrightarrow> late u a k p c')"
proof -
  from assms(2) consider
      "c = Loop [\<lparr>cart_product = k, cart_quantity = 1\<rparr>] [] 0"
    | "c = Saving k 0 [] [line_of k p] (product_price p)"
    | "c = Loop [] [line_of k p] (product_price p)"
    | oid where "c = Finished (Inr (201, oid, priced_order u a [line_of k p] (product_price p)))"
    | "c = Finished (Inl (out_of_stock p))"
    by (auto simp: phase_def early_def late_def)
  then show ?thesis
  proof cases
    case 1
    with assms(1,4) show ?thesis
      by (auto simp: phase_def late_def out_of_stock_def)
  next
    case 2
    with assms(1,4) show ?thesis
      by (auto simp: phase_def late_def)
  next
    case 3
    with assms(1,4) priced_order_valid [OF assms(3), of u a k] show ?thesis
      by (auto simp: phase_def late_def Order_create_def)
  next
    case 4
    with assms(1,4) show ?thesis
      by (auto simp: phase_def late_def)
  next
    case 5
    with assms(1,4) show ?thesis
      by (auto simp: phase_def late_def)
  qed
qed

lemma early_phase: "early k p c \<Longrightarrow> phase u a k p c"
  by (simp add: phase_def)

lemma late_phase: "late u a k p c \<Longrightarrow> phase u a k p c"
  by (simp add: phase_def)

lemma take_turn_inv:
  assumes "last_item_inv rq k p c" and "0 \<le> product_price p"
  shows "last_item_inv rq k p (take_turn rq t c)"
proof -
  obtain p1 p2 db where c: "c = (p1, p2, db)" by (cases c)
  show ?thesis
  proof (cases t)
    case First
    obtain p1' db' where s: "step (first_user rq) (first_address rq) p1 db = (p1', db')"
      by (cases "step (first_user rq) (first_address rq) p1 db")
    from assms(1) show ?thesis
      unfolding c First
      using step_in_stock [OF _ _ s, of k p] step_sold [OF _ _ assms(2) s, of k]
      by (auto simp: last_item_inv_def s early_phase late_phase)
  next
    case Second
    obtain p2' db' where s: "step (second_user rq) (second_address rq) p2 db = (p2', db')"
      by (cases "step (second_user rq) (second_address rq) p2 db")
    from assms(1) show ?thesis
      unfolding c Second
      using step_in_stock [OF _ _ s, of k p] step_sold [OF _ _ assms(2) s, of k]
      by (auto simp: last_item_inv_def s early_phase late_phase)
  qed
qed

lemma interleave_inv:
  assumes "0 \<le> product_price p"
  shows "last_item_inv rq k p c \<Longrightarrow> last_item_inv rq k p (interleave rq schedule c)"
  unfolding interleave_def
  by (induction schedule arbitrary: c) (simp_all add: take_turn_inv [OF _ assms])

lemma start_one_of: "start (one_of k addr) = Loop [\<lparr>cart_product = k, cart_quantity = 1\<rparr>] [] 0"
  by (simp add: start_def one_of_def)

lemma initial_inv:
  assumes "shop_products db k = Some p" and "product_stock p = 1"
  shows "last_item_inv rq k p (start (one_of k a1), start (one_of k a2), db)"
  using assms by (simp add: last_item_inv_def start_one_of early_def)

lemma inv_outcome:
  assumes "last_item_inv rq k p (p1, p2, db)"
  shows "(stock_of db k = Some 0 \<or> stock_of db k = Some 1)
     \<and> (\<not> answered p1 \<or> \<not> answered p2 \<or> stock_of db k = Some 0 \<and> (succeeded p1 \<or> succeeded p2))"
  using assms
  by (auto simp: last_item_inv_def stock_of_def early_def late_def phase_def answered_def succeeded_def)

text \<open>
  C3 (as the code has it). For a product with stock 1 (and a price that is not negative)
  and two \<open>createOrder\<close> calls that each ask for one of it: when the second call starts
  after the first has answered, the first succeeds, the second fails with the status-400
  out-of-stock error and the stock ends at 0; and under every interleaving of the two
  calls the stock is 0 or 1 (never negative) and, once both have answered, it is 0 and at
  least one call has succeeded. The check and the decrement are separate store operations,
  so nothing more holds: both calls may succeed.
\<close>

theorem last_item_two_requests:
  assumes "shop_products db k = Some p" and "product_stock p = 1" and "0 \<le> product_price p"
  shows "(\<exists>ord db1.
            createOrder (first_user rq) (one_of k (first_address rq)) db
              = (Inr (201, shop_next_id db, ord), db1)
          \<and> createOrder (second_user rq) (one_of k (second_address rq)) db1
              = (Inl (out_of_stock p), db1)
          \<and> stock_of db1 k = Some 0
          \<and> interleave rq (replicate 3 First @ replicate 3 Second)
                (start (one_of k (first_address rq)), start (one_of k (second_address rq)), db)
              = (Finished (Inr (201, shop_next_id db, ord)), Finished (Inl (out_of_stock p)), db1))
       \<and> (\<forall>schedule p1 p2 db'.
            interleave rq schedule
                (start (one_of k (first_address rq)), start (one_of k (second_address rq)), db)
              = (p1, p2, db')
            \<longrightarrow> (stock_of db' k = Some 0 \<or> stock_of db' k = Some 1)
              \<and> (answered p1 \<and> answered p2
                   \<longrightarrow> stock_of db' k = Some 0 \<and> (succeeded p1 \<or> succeeded p2)))"
proof
  let ?b1 = "one_of k (first_address rq)" and ?b2 = "one_of k (second_address rq)"
  let ?ord = "priced_order (first_user rq) (first_address rq) [line_of k p] (product_price p)"
  let ?db1 = "db\<lparr>shop_products := (shop_products db)(k \<mapsto> p\<lparr>product_stock := 0\<rparr>),
                 shop_orders := (shop_orders db)(shop_next_id db \<mapsto> ?ord),
                 shop_next_id := Suc (shop_next_id db)\<rparr>"
  have valid: "order_valid ?ord"
    by (rule priced_order_valid [OF assms(3)])
  have one: "createOrder (first_user rq) ?b1 db = (Inr (201, shop_next_id db, ?ord), ?db1)"
    using assms(1,2) valid
    by (simp add: createOrder_def one_of_def Order_create_def line_of_def)
  have two: "createOrder (second_user rq) ?b2 ?db1 = (Inl (out_of_stock p), ?db1)"
    by (simp add: createOrder_def one_of_def out_of_stock_def)
  have stock: "stock_of ?db1 k = Some 0"
    by (simp add: stock_of_def)
  have seq: "interleave rq (replicate 3 First @ replicate 3 Second) (start ?b1, start ?b2, db)
               = (Finished (Inr (201, shop_next_id db, ?ord)), Finished (Inl (out_of_stock p)), ?db1)"
    using interleave_one_after_the_other [OF _ _ _ _ one two,
            of "[\<lparr>cart_product = k, cart_quantity = 1\<rparr>]" "[\<lparr>cart_product = k, cart_quantity = 1\<rparr>]"]
    by (simp add: one_of_def)
  from one two stock seq
  show "\<exists>ord db1.
            createOrder (first_user rq) ?b1 db = (Inr (201, shop_next_id db, ord), db1)
          \<and> createOrder (second_user rq) ?b2 db1 = (Inl (out_of_stock p), db1)
          \<and> stock_of db1 k = Some 0
          \<and> interleave rq (replicate 3 First @ replicate 3 Second) (start ?b1, start ?b2, db)
              = (Finished (Inr (201, shop_next_id db, ord)), Finished (Inl (out_of_stock p)), db1)"
    by blast
next
  show "\<forall>schedule p1 p2 db'.
            interleave rq schedule
                (start (one_of k (first_address rq)), start (one_of k (second_address rq)), db)
              = (p1, p2, db')
            \<longrightarrow> (stock_of db' k = Some 0 \<or> stock_of db' k = Some 1)
              \<and> (answered p1 \<and> answered p2
                   \<longrightarrow> stock_of db' k = Some 0 \<and> (succeeded p1 \<or> succeeded p2))"
  proof (intro allI impI)
    fix schedule p1 p2 db'
    assume run: "interleave rq schedule
                (start (one_of k (first_address rq)), start (one_of k (second_address rq)), db)
              = (p1, p2, db')"
    have init: "last_item_inv rq k p
        (start (one_of k (first_address rq)), start (one_of k (second_address rq)), db)"
      by (rule initial_inv [OF assms(1,2)])
    have "last_item_inv rq k p (p1, p2, db')"
      using interleave_inv [OF assms(3) init, of schedule] run by simp
    from inv_outcome [OF this]
    show "(stock_of db' k = Some 0 \<or> stock_of db' k = Some 1)
              \<and> (answered p1 \<and> answered p2
                   \<longrightarrow> stock_of db' k = Some 0 \<and> (succeeded p1 \<or> succeeded p2))"
      by blast
  qed
qed

lemmas step_defs = interleave_def start_def one_of_def ex_requests_def

theorem last_item_two_requests_counterexample:
  "succeeded (fst (interleave ex_requests ex_overlap
       (start (one_of 2 ex_address), start (one_of 2 ex_address), ex_shop)))
   \<and> succeeded (fst (snd (interleave ex_requests ex_overlap
       (start (one_of 2 ex_address), start (one_of 2 ex_address), ex_shop))))
   \<and> stock_of ex_shop 2 = Some 1
   \<and> stock_of (snd (snd (interleave ex_requests ex_overlap
       (start (one_of 2 ex_address), start (one_of 2 ex_address), ex_shop)))) 2 = Some 0
   \<and> shop_next_id (snd (snd (interleave ex_requests ex_overlap
       (start (one_of 2 ex_address), start (one_of 2 ex_address), ex_shop)))) = 2"
  by (simp add: step_defs ex_overlap_def ex_defs order_defs succeeded_def stock_of_def)

theorem last_item_two_requests_witness:
  "shop_products ex_shop 2 = Some ex_frame \<and> product_stock ex_frame = 1 \<and> 0 \<le> product_price ex_frame
   \<and> \<not> isl (fst (createOrder ex_user (one_of 2 ex_address) ex_shop))
   \<and> stock_of (snd (createOrder ex_user (one_of 2 ex_address) ex_shop)) 2 = Some 0
   \<and> fst (createOrder \<lparr>user_id = 8, user_role = ''user''\<rparr> (one_of 2 ex_address)
            (snd (createOrder ex_user (one_of 2 ex_address) ex_shop)))
       = Inl (out_of_stock ex_frame)
   \<and> (stock_of (snd (snd (interleave ex_requests [First, Second, First]
          (start (one_of 2 ex_address), start (one_of 2 ex_address), ex_shop)))) 2 = Some 0
      \<or> stock_of (snd (snd (interleave ex_requests [First, Second, First]
          (start (one_of 2 ex_address), start (one_of 2 ex_address), ex_shop)))) 2 = Some 1)"
proof -
  have h: "shop_products ex_shop 2 = Some ex_frame" "product_stock ex_frame = 1"
    "0 \<le> product_price ex_frame"
    by (simp_all add: ex_shop_def ex_frame_def)
  note facts = last_item_two_requests [OF h, of ex_requests]
  from facts obtain ord db1 where
    one: "createOrder ex_user (one_of 2 ex_address) ex_shop = (Inr (201, shop_next_id ex_shop, ord), db1)"
    and two: "createOrder \<lparr>user_id = 8, user_role = ''user''\<rparr> (one_of 2 ex_address) db1
                = (Inl (out_of_stock ex_frame), db1)"
    and stock: "stock_of db1 2 = Some 0"
    by (auto simp: ex_requests_def)
  obtain p1 p2 db' where run: "interleave ex_requests [First, Second, First]
          (start (one_of 2 ex_address), start (one_of 2 ex_address), ex_shop) = (p1, p2, db')"
    by (cases "interleave ex_requests [First, Second, First]
          (start (one_of 2 ex_address), start (one_of 2 ex_address), ex_shop)")
  from facts run have "stock_of db' 2 = Some 0 \<or> stock_of db' 2 = Some 1"
    by (simp add: ex_requests_def)
  with h one two stock run show ?thesis
    by simp
qed

subsection \<open>The payment webhook\<close>


lemma order_valid_status:
  "order_valid ord \<Longrightarrow> status \<in> set order_status_enum \<Longrightarrow> order_valid (ord\<lparr>order_status := status\<rparr>)"
  by (simp add: order_valid_def)

lemma booking_valid_status:
  "booking_valid b \<Longrightarrow> status \<in> set booking_status_enum \<Longrightarrow> booking_valid (b\<lparr>booking_status := status\<rparr>)"
  by (simp add: booking_valid_def)





section \<open>Properties of the status updates and of login\<close>

lemmas booking_defs = booking_valid_def sessionType_enum_def booking_status_enum_def
  payment_method_enum_def Booking_save_def

lemmas ex_booking_defs = ex_booking_def ex_bookings_def ex_admin_def ex_stranger_def ex_user_def

lemma ex_booking_valid: "status \<in> set booking_status_enum \<Longrightarrow> booking_valid (ex_booking status)"
  by (simp add: ex_booking_def booking_valid_def sessionType_enum_def payment_method_enum_def)

text \<open>
  C10. Neither status update checks the transition: for a stored (schema-valid) order and
  any status of the order-status enum, \<open>updateOrderStatus\<close> stores exactly that status,
  whatever the current one is; and \<open>updateBookingStatus\<close> does the same for a stored
  booking and any status of the booking-status enum.
\<close>

theorem status_updates_unchecked:
  "(shop_orders db oid = Some ord \<and> order_valid ord \<and> status \<in> set order_status_enum \<longrightarrow>
      updateOrderStatus oid (Some status) db
        = (Inr (200, ord\<lparr>order_status := status\<rparr>),
           db\<lparr>shop_orders := (shop_orders db)(oid \<mapsto> ord\<lparr>order_status := status\<rparr>)\<rparr>))
   \<and> (bookings bdb bid = Some b \<and> booking_valid b \<and> bstatus \<in> set booking_status_enum \<longrightarrow>
      updateBookingStatus bid (Some bstatus) bdb
        = (Inr (200, b\<lparr>booking_status := bstatus\<rparr>),
           bdb\<lparr>bookings := (bookings bdb)(bid \<mapsto> b\<lparr>booking_status := bstatus\<rparr>)\<rparr>))"
proof (intro conjI impI)
  assume a: "shop_orders db oid = Some ord \<and> order_valid ord \<and> status \<in> set order_status_enum"
  then have "status \<noteq> []"
    by (auto simp: order_status_enum_def)
  moreover from a have "order_valid (ord\<lparr>order_status := status\<rparr>)"
    by (simp add: order_valid_status)
  ultimately show "updateOrderStatus oid (Some status) db
        = (Inr (200, ord\<lparr>order_status := status\<rparr>),
           db\<lparr>shop_orders := (shop_orders db)(oid \<mapsto> ord\<lparr>order_status := status\<rparr>)\<rparr>)"
    using a by (simp add: updateOrderStatus_def Order_save_def)
next
  assume a: "bookings bdb bid = Some b \<and> booking_valid b \<and> bstatus \<in> set booking_status_enum"
  then have "bstatus \<noteq> []"
    by (auto simp: booking_status_enum_def)
  moreover from a have "booking_valid (b\<lparr>booking_status := bstatus\<rparr>)"
    by (simp add: booking_valid_status)
  ultimately show "updateBookingStatus bid (Some bstatus) bdb
        = (Inr (200, b\<lparr>booking_status := bstatus\<rparr>),
           bdb\<lparr>bookings := (bookings bdb)(bid \<mapsto> b\<lparr>booking_status := bstatus\<rparr>)\<rparr>)"
    using a by (simp add: updateBookingStatus_def Booking_save_def)
qed

theorem status_updates_unchecked_witness:
  "shop_orders (ex_shop\<lparr>shop_orders := [0 \<mapsto> ex_order2\<lparr>order_status := ''delivered''\<rparr>]\<rparr>) 0
     = Some (ex_order2\<lparr>order_status := ''delivered''\<rparr>)
   \<and> order_valid (ex_order2\<lparr>order_status := ''delivered''\<rparr>)
   \<and> ''pending'' \<in> set order_status_enum
   \<and> updateOrderStatus 0 (Some ''pending'')
        (ex_shop\<lparr>shop_orders := [0 \<mapsto> ex_order2\<lparr>order_status := ''delivered''\<rparr>]\<rparr>)
       = (Inr (200, ex_order2\<lparr>order_status := ''pending''\<rparr>),
          ex_shop\<lparr>shop_orders := [0 \<mapsto> ex_order2\<lparr>order_status := ''pending''\<rparr>]\<rparr>)
   \<and> bookings (ex_bookings ''completed'') 1 = Some (ex_booking ''completed'')
   \<and> booking_valid (ex_booking ''completed'')
   \<and> ''cancelled'' \<in> set booking_status_enum
   \<and> updateBookingStatus 1 (Some ''cancelled'') (ex_bookings ''completed'')
       = (Inr (200, ex_booking ''cancelled''), ex_bookings ''cancelled'')"
proof -
  have o: "shop_orders (ex_shop\<lparr>shop_orders := [0 \<mapsto> ex_order2\<lparr>order_status := ''delivered''\<rparr>]\<rparr>) 0
            = Some (ex_order2\<lparr>order_status := ''delivered''\<rparr>)"
    by simp
  have ov: "order_valid (ex_order2\<lparr>order_status := ''delivered''\<rparr>)"
    by (simp add: ex_order2_def order_defs)
  have os: "''pending'' \<in> set order_status_enum"
    by (simp add: order_status_enum_def)
  have b: "bookings (ex_bookings ''completed'') 1 = Some (ex_booking ''completed'')"
    by (simp add: ex_bookings_def)
  have bs: "''cancelled'' \<in> set booking_status_enum" "''completed'' \<in> set booking_status_enum"
    by (simp_all add: booking_status_enum_def)
  have bv: "booking_valid (ex_booking ''completed'')"
    by (rule ex_booking_valid [OF bs(2)])
  note facts = status_updates_unchecked
    [of "ex_shop\<lparr>shop_orders := [0 \<mapsto> ex_order2\<lparr>order_status := ''delivered''\<rparr>]\<rparr>" 0
        "ex_order2\<lparr>order_status := ''delivered''\<rparr>" "''pending''"
        "ex_bookings ''completed''" 1 "ex_booking ''completed''" "''cancelled''"]
  from facts o ov os b bv bs(1) show ?thesis
    by (simp add: ex_bookings_def ex_booking_def)
qed

text \<open>
  C9. A login that fails because no user has the email, and a login that fails because
  the password does not match the stored hash, give the caller the same result: the error
  with status 401 and message \<open>Invalid credentials\<close>.
\<close>

theorem login_failures_indistinguishable:
  assumes "login_email body1 = Some email1" and "email1 \<noteq> []"
    and "login_password body1 = Some password1" and "password1 \<noteq> []"
    and "find (\<lambda>u. account_email u = email1) users1 = None"
    and "login_email body2 = Some email2" and "email2 \<noteq> []"
    and "login_password body2 = Some password2" and "password2 \<noteq> []"
    and "find (\<lambda>u. account_email u = email2) users2 = Some u"
    and "\<not> compare2 password2 (account_password u)"
  shows "login compare1 sign1 users1 body1 = Inl (ErrorResponse [Lit ''Invalid credentials''] 401)
       \<and> login compare2 sign2 users2 body2 = Inl (ErrorResponse [Lit ''Invalid credentials''] 401)
       \<and> login compare1 sign1 users1 body1 = login compare2 sign2 users2 body2"
  using assms by (simp add: login_def)

theorem login_failures_indistinguishable_witness:
  "find (\<lambda>u. account_email u = ''nobody@example.com'') ex_accounts = None
   \<and> find (\<lambda>u. account_email u = ''client@example.com'') ex_accounts = Some (hd ex_accounts)
   \<and> \<not> ex_compare ''guess'' (account_password (hd ex_accounts))
   \<and> login ex_compare ex_sign ex_accounts
        \<lparr>login_email = Some ''nobody@example.com'', login_password = Some ''secret''\<rparr>
       = Inl (ErrorResponse [Lit ''Invalid credentials''] 401)
   \<and> login ex_compare ex_sign ex_accounts
        \<lparr>login_email = Some ''client@example.com'', login_password = Some ''guess''\<rparr>
       = Inl (ErrorResponse [Lit ''Invalid credentials''] 401)
   \<and> login ex_compare ex_sign ex_accounts
        \<lparr>login_email = Some ''client@example.com'', login_password = Some ''secret''\<rparr>
       = Inr (200, ''token-for-user'')"
proof -
  have a: "find (\<lambda>u. account_email u = ''nobody@example.com'') ex_accounts = None"
    by (simp add: ex_accounts_def)
  have b: "find (\<lambda>u. account_email u = ''client@example.com'') ex_accounts = Some (hd ex_accounts)"
    by (simp add: ex_accounts_def)
  have c: "\<not> ex_compare ''guess'' (account_password (hd ex_accounts))"
    by (simp add: ex_accounts_def ex_compare_def)
  have ok: "login ex_compare ex_sign ex_accounts
        \<lparr>login_email = Some ''client@example.com'', login_password = Some ''secret''\<rparr>
       = Inr (200, ''token-for-user'')"
    by (simp add: login_def ex_accounts_def ex_compare_def ex_sign_def sendTokenResponse_def)
  note facts = login_failures_indistinguishable
    [of "\<lparr>login_email = Some ''nobody@example.com'', login_password = Some ''secret''\<rparr>"
        "''nobody@example.com''" "''secret''" ex_accounts
        "\<lparr>login_email = Some ''client@example.com'', login_password = Some ''guess''\<rparr>"
        "''client@example.com''" "''guess''" ex_accounts "hd ex_accounts" ex_compare
        ex_compare ex_sign ex_sign, OF _ _ _ _ a _ _ _ _ b c]
  from facts a b c ok show ?thesis
    by simp
qed

section \<open>Properties of the booking workflow\<close>

lemma trim_example: "trim ''  Beach '' = ''Beach''"
  by (simp add: trim_def white_space_def)

lemma trim_no_break_space:
  "trim (CHR 0xC2 # CHR 0xA0 # ''Beach'' @ [CHR 0xE3, CHR 0x80, CHR 0x80]) = ''Beach''"
  "trim [CHR 0xC2, CHR 0xA0] = []"
  by (simp_all add: trim_def white_space_def)

lemma ex_update_cast: "cast_update ex_update = Some ex_set"
  by (simp add: cast_update_def ex_update_def ex_set_def trim_example)

lemma ex_set_valid: "set_valid ex_set"
  by (simp add: set_valid_def ex_set_def)

lemma merge_set_keeps:
  "booking_status (merge_set f b) = booking_status b"
  "booking_client (merge_set f b) = booking_client b"
  "booking_payment (merge_set f b) = booking_payment b"
  "booking_photographer (merge_set f b) = booking_photographer b"
  "booking_calendlyEventId (merge_set f b) = booking_calendlyEventId b"
  by (simp_all add: merge_set_def)

text \<open>
  C6 (as the code has it). For a stored booking: a requester who is neither the owner nor
  an admin is always rejected, with status 401; the owner (not an admin) of a booking
  that is confirmed or completed is rejected with status 400 (not with a Forbidden
  error); in both cases nothing changes. An admin's call on the same booking succeeds
  when the update can be cast and passes the validators of the updated fields: the given
  fields replace the stored ones, the rest of the booking (status, client, payment) stays.
\<close>

theorem updateBooking_gate:
  assumes "bookings db bid = Some b"
  shows "(booking_client b \<noteq> user_id req_user \<and> user_role req_user \<noteq> ''admin'' \<longrightarrow>
            updateBooking req_user bid body db
              = (Inl (ErrorResponse [Lit ''User '', Id (user_id req_user),
                                     Lit '' is not authorized to update this booking''] 401), db))
       \<and> (booking_client b = user_id req_user \<and> user_role req_user \<noteq> ''admin''
            \<and> (booking_status b = ''confirmed'' \<or> booking_status b = ''completed'') \<longrightarrow>
            updateBooking req_user bid body db
              = (Inl (ErrorResponse [Lit ''Cannot update a booking that is already '',
                                     Lit (booking_status b)] 400), db))
       \<and> (user_role req_user = ''admin'' \<and> cast_update body = Some f \<and> set_valid f \<longrightarrow>
            updateBooking req_user bid body db
              = (Inr (200, Some (merge_set f b)),
                 db\<lparr>bookings := (bookings db)(bid \<mapsto> merge_set f b)\<rparr>)
            \<and> booking_status (merge_set f b) = booking_status b
            \<and> booking_client (merge_set f b) = booking_client b
            \<and> booking_payment (merge_set f b) = booking_payment b)"
  using assms
  by (auto simp: updateBooking_def Booking_findByIdAndUpdate_def merge_set_keeps)

theorem updateBooking_gate_witness:
  "bookings (ex_bookings ''confirmed'') 1 = Some (ex_booking ''confirmed'')
   \<and> cast_update ex_update = Some ex_set \<and> set_valid ex_set
   \<and> updateBooking ex_stranger 1 ex_update (ex_bookings ''confirmed'')
       = (Inl (ErrorResponse [Lit ''User '', Id 9, Lit '' is not authorized to update this booking''] 401),
          ex_bookings ''confirmed'')
   \<and> updateBooking ex_user 1 ex_update (ex_bookings ''confirmed'')
       = (Inl (ErrorResponse [Lit ''Cannot update a booking that is already '', Lit ''confirmed''] 400),
          ex_bookings ''confirmed'')
   \<and> fst (updateBooking ex_admin 1 ex_update (ex_bookings ''confirmed''))
       = Inr (200, Some ((ex_booking ''confirmed'')
                \<lparr>booking_location := ''Beach'', booking_notes := Some ''Bring props''\<rparr>))
   \<and> bookings (snd (updateBooking ex_admin 1 ex_update (ex_bookings ''confirmed''))) 1
       = Some ((ex_booking ''confirmed'')
                \<lparr>booking_location := ''Beach'', booking_notes := Some ''Bring props''\<rparr>)"
proof -
  have b: "bookings (ex_bookings ''confirmed'') 1 = Some (ex_booking ''confirmed'')"
    by (simp add: ex_bookings_def)
  have m: "merge_set ex_set (ex_booking ''confirmed'')
             = (ex_booking ''confirmed'')\<lparr>booking_location := ''Beach'', booking_notes := Some ''Bring props''\<rparr>"
    by (simp add: merge_set_def ex_set_def ex_booking_def)
  note s = updateBooking_gate [OF b, of ex_stranger ex_update ex_set]
  note o = updateBooking_gate [OF b, of ex_user ex_update ex_set]
  note a = updateBooking_gate [OF b, of ex_admin ex_update ex_set]
  from s have r1: "updateBooking ex_stranger 1 ex_update (ex_bookings ''confirmed'')
       = (Inl (ErrorResponse [Lit ''User '', Id 9, Lit '' is not authorized to update this booking''] 401),
          ex_bookings ''confirmed'')"
    by (simp add: ex_stranger_def ex_booking_def)
  from o have r2: "updateBooking ex_user 1 ex_update (ex_bookings ''confirmed'')
       = (Inl (ErrorResponse [Lit ''Cannot update a booking that is already '', Lit ''confirmed''] 400),
          ex_bookings ''confirmed'')"
    by (simp add: ex_user_def ex_booking_def)
  from a ex_update_cast ex_set_valid have r3: "updateBooking ex_admin 1 ex_update (ex_bookings ''confirmed'')
       = (Inr (200, Some (merge_set ex_set (ex_booking ''confirmed''))),
          (ex_bookings ''confirmed'')\<lparr>bookings := (bookings (ex_bookings ''confirmed''))
              (1 \<mapsto> merge_set ex_set (ex_booking ''confirmed''))\<rparr>)"
    by (simp add: ex_admin_def)
  show ?thesis
    unfolding r1 r2 r3 m using b ex_update_cast ex_set_valid by simp
qed

theorem updateBooking_gate_counterexample:
  "fst (updateBooking ex_user 1 ex_update (ex_bookings ''confirmed''))
     = Inl (ErrorResponse [Lit ''Cannot update a booking that is already '', Lit ''confirmed''] 400)
   \<and> fst (updateBooking ex_user 1 ex_update (ex_bookings ''confirmed''))
     \<noteq> Inl (ErrorResponse [Lit ''Cannot update a booking that is already '', Lit ''confirmed''] 403)
   \<and> fst (updateBooking ex_stranger 1 ex_update (ex_bookings ''confirmed''))
     = Inl (ErrorResponse [Lit ''User '', Id 9, Lit '' is not authorized to update this booking''] 401)
   \<and> fst (updateBooking ex_admin 1 ex_update_unknown_type (ex_bookings ''confirmed''))
     = Inl ValidationError
   \<and> fst (updateBooking ex_admin 1 ex_update_invalid_date (ex_bookings ''confirmed''))
     = Inl CastError
   \<and> fst (updateBooking ex_admin 1 ex_update_blank_location (ex_bookings ''confirmed''))
     = Inl ValidationError"
  by (simp add: updateBooking_def Booking_findByIdAndUpdate_def ex_booking_defs ex_update_def
        ex_update_unknown_type_def ex_update_invalid_date_def ex_update_blank_location_def
        cast_update_def set_valid_def sessionType_enum_def trim_example trim_no_break_space)

text \<open>
  C7. For the owner or an admin: \<open>cancelBooking\<close> on a completed booking fails with
  status 400 and changes nothing; on any other stored (schema-valid) booking it answers
  200 and the booking is stored with status \<open>cancelled\<close>, whatever the calendar service
  does; and when the booking has an event id and the API key is set, a cancellation
  request that the calendar service rejects still leaves the booking cancelled and the
  answer 200 (the request was sent, its failure only written to the console).
\<close>

theorem cancelBooking_cases:
  assumes "bookings db bid = Some b"
    and "booking_client b = user_id req_user \<or> user_role req_user = ''admin''"
  shows "(booking_status b = ''completed'' \<longrightarrow>
            cancelBooking calendly_post api_key req_user bid reason db
              = (Inl (ErrorResponse [Lit ''Cannot cancel a completed booking''] 400), db))
       \<and> (booking_status b \<noteq> ''completed'' \<and> booking_valid b \<longrightarrow>
            fst (cancelBooking calendly_post api_key req_user bid reason db)
              = Inr (200, b\<lparr>booking_status := ''cancelled''\<rparr>)
            \<and> bookings (snd (cancelBooking calendly_post api_key req_user bid reason db))
              = (bookings db)(bid \<mapsto> b\<lparr>booking_status := ''cancelled''\<rparr>))
       \<and> (booking_status b \<noteq> ''completed'' \<and> booking_valid b
            \<and> booking_calendlyEventId b = Some event \<and> event \<noteq> [] \<and> truthy api_key
            \<and> \<not> calendly_post event
                  (case reason of None \<Rightarrow> ''Cancelled by user''
                   | Some r \<Rightarrow> if r = [] then ''Cancelled by user'' else r) \<longrightarrow>
            cancelBooking calendly_post api_key req_user bid reason db
              = (Inr (200, b\<lparr>booking_status := ''cancelled''\<rparr>),
                 db\<lparr>bookings := (bookings db)(bid \<mapsto> b\<lparr>booking_status := ''cancelled''\<rparr>),
                    calendly_calls := calendly_calls db
                      @ [(event, case reason of None \<Rightarrow> ''Cancelled by user''
                                 | Some r \<Rightarrow> if r = [] then ''Cancelled by user'' else r)],
                    console_errors := console_errors db @ [''Failed to cancel Calendly event:'']\<rparr>))"
proof -
  have v: "booking_valid (b\<lparr>booking_status := ''cancelled''\<rparr>)" if "booking_valid b"
    using that by (simp add: booking_valid_status booking_status_enum_def)
  have completed: "cancelBooking calendly_post api_key req_user bid reason db
              = (Inl (ErrorResponse [Lit ''Cannot cancel a completed booking''] 400), db)"
    if "booking_status b = ''completed''"
    using assms that by (auto simp: cancelBooking_def)
  have cancelled: "fst (cancelBooking calendly_post api_key req_user bid reason db)
              = Inr (200, b\<lparr>booking_status := ''cancelled''\<rparr>)
            \<and> bookings (snd (cancelBooking calendly_post api_key req_user bid reason db))
              = (bookings db)(bid \<mapsto> b\<lparr>booking_status := ''cancelled''\<rparr>)"
    if "booking_status b \<noteq> ''completed''" and "booking_valid b"
    using assms that v
    by (auto simp: cancelBooking_def Booking_save_def Let_def split: option.splits)
  have tolerated: "cancelBooking calendly_post api_key req_user bid reason db
              = (Inr (200, b\<lparr>booking_status := ''cancelled''\<rparr>),
                 db\<lparr>bookings := (bookings db)(bid \<mapsto> b\<lparr>booking_status := ''cancelled''\<rparr>),
                    calendly_calls := calendly_calls db
                      @ [(event, case reason of None \<Rightarrow> ''Cancelled by user''
                                 | Some r \<Rightarrow> if r = [] then ''Cancelled by user'' else r)],
                    console_errors := console_errors db @ [''Failed to cancel Calendly event:'']\<rparr>)"
    if "booking_status b \<noteq> ''completed''" and "booking_valid b"
      and "booking_calendlyEventId b = Some event" and "event \<noteq> []" and "truthy api_key"
      and "\<not> calendly_post event
                  (case reason of None \<Rightarrow> ''Cancelled by user''
                   | Some r \<Rightarrow> if r = [] then ''Cancelled by user'' else r)"
    using assms that v
    by (auto simp: cancelBooking_def Booking_save_def Let_def)
  from completed cancelled tolerated show ?thesis
    by blast
qed

theorem cancelBooking_cases_witness:
  "bookings (ex_bookings ''completed'') 1 = Some (ex_booking ''completed'')
   \<and> bookings (ex_bookings ''confirmed'') 1 = Some (ex_booking ''confirmed'')
   \<and> booking_client (ex_booking ''confirmed'') = user_id ex_user
   \<and> booking_valid (ex_booking ''confirmed'')
   \<and> cancelBooking calendly_down (Some ''key'') ex_user 1 None (ex_bookings ''completed'')
       = (Inl (ErrorResponse [Lit ''Cannot cancel a completed booking''] 400), ex_bookings ''completed'')
   \<and> cancelBooking calendly_down (Some ''key'') ex_user 1 (Some ''Rain'') (ex_bookings ''confirmed'')
       = (Inr (200, ex_booking ''cancelled''),
          \<lparr>bookings = [1 \<mapsto> ex_booking ''cancelled''], calendly_calls = [(''evt-1'', ''Rain'')],
           console_errors = [''Failed to cancel Calendly event:'']\<rparr>)"
proof -
  have b1: "bookings (ex_bookings ''completed'') 1 = Some (ex_booking ''completed'')"
    and b2: "bookings (ex_bookings ''confirmed'') 1 = Some (ex_booking ''confirmed'')"
    by (simp_all add: ex_bookings_def)
  have own: "booking_client (ex_booking s) = user_id ex_user \<or> user_role ex_user = ''admin''" for s
    by (simp add: ex_booking_def ex_user_def)
  have valid: "booking_valid (ex_booking ''confirmed'')"
    by (rule ex_booking_valid) (simp add: booking_status_enum_def)
  have down: "\<not> calendly_down ''evt-1'' ''Rain''"
    by (simp add: calendly_down_def)
  note c = cancelBooking_cases [OF b1 own, of calendly_down "Some ''key''" None]
  note t = cancelBooking_cases [OF b2 own, of calendly_down "Some ''key''" "Some ''Rain''" "''evt-1''"]
  from c have r1: "cancelBooking calendly_down (Some ''key'') ex_user 1 None (ex_bookings ''completed'')
       = (Inl (ErrorResponse [Lit ''Cannot cancel a completed booking''] 400), ex_bookings ''completed'')"
    by (simp add: ex_booking_def)
  from t valid down have r2:
    "cancelBooking calendly_down (Some ''key'') ex_user 1 (Some ''Rain'') (ex_bookings ''confirmed'')
       = (Inr (200, ex_booking ''cancelled''),
          \<lparr>bookings = [1 \<mapsto> ex_booking ''cancelled''], calendly_calls = [(''evt-1'', ''Rain'')],
           console_errors = [''Failed to cancel Calendly event:'']\<rparr>)"
    by (simp add: ex_booking_def ex_bookings_def truthy_def)
  show ?thesis
    unfolding r1 r2 using b1 b2 valid by (simp add: ex_booking_def ex_user_def)
qed

text \<open>
  C8 (as the code has it). \<open>cancelBooking\<close> by the owner or an admin on a stored
  (schema-valid) booking that is already cancelled is not rejected: it answers 200 with
  the booking and leaves the bookings collection as it was. When the booking has an
  event id and the API key is set it sends the external cancellation request again;
  when either is missing it changes nothing at all.
\<close>

theorem cancelBooking_again:
  assumes "bookings db bid = Some b"
    and "booking_client b = user_id req_user \<or> user_role req_user = ''admin''"
    and "booking_status b = ''cancelled''" and "booking_valid b"
  shows "fst (cancelBooking calendly_post api_key req_user bid reason db) = Inr (200, b)
       \<and> bookings (snd (cancelBooking calendly_post api_key req_user bid reason db)) = bookings db
       \<and> (booking_calendlyEventId b = Some event \<and> event \<noteq> [] \<and> truthy api_key \<longrightarrow>
            calendly_calls (snd (cancelBooking calendly_post api_key req_user bid reason db))
              = calendly_calls db
                  @ [(event, case reason of None \<Rightarrow> ''Cancelled by user''
                             | Some r \<Rightarrow> if r = [] then ''Cancelled by user'' else r)])
       \<and> (\<not> truthy (booking_calendlyEventId b) \<or> \<not> truthy api_key \<longrightarrow>
            snd (cancelBooking calendly_post api_key req_user bid reason db) = db)"
proof -
  have same: "b\<lparr>booking_status := ''cancelled''\<rparr> = b"
    using assms(3) by (cases b) simp
  have stored: "(bookings db)(bid \<mapsto> b) = bookings db"
    using assms(1) by (rule map_upd_triv)
  have ne: "booking_status b \<noteq> ''completed''"
    using assms(3) by simp
  have save: "Booking_save bid b db = (Inr b, db)"
    using assms(4) by (simp add: Booking_save_def stored)
  show ?thesis
    using assms(1,2) ne
    by (auto simp: cancelBooking_def same save Let_def truthy_def split: option.splits)
qed

theorem cancelBooking_again_witness:
  "bookings (ex_bookings ''cancelled'') 1 = Some (ex_booking ''cancelled'')
   \<and> booking_client (ex_booking ''cancelled'') = user_id ex_user
   \<and> booking_status (ex_booking ''cancelled'') = ''cancelled''
   \<and> booking_valid (ex_booking ''cancelled'')
   \<and> fst (cancelBooking calendly_up (Some ''key'') ex_user 1 None (ex_bookings ''cancelled''))
       = Inr (200, ex_booking ''cancelled'')
   \<and> bookings (snd (cancelBooking calendly_up (Some ''key'') ex_user 1 None (ex_bookings ''cancelled'')))
       = bookings (ex_bookings ''cancelled'')
   \<and> calendly_calls (snd (cancelBooking calendly_up (Some ''key'') ex_user 1 None (ex_bookings ''cancelled'')))
       = [(''evt-1'', ''Cancelled by user'')]
   \<and> snd (cancelBooking calendly_up None ex_user 1 None (ex_bookings ''cancelled''))
       = ex_bookings ''cancelled''"
proof -
  have b: "bookings (ex_bookings ''cancelled'') 1 = Some (ex_booking ''cancelled'')"
    by (simp add: ex_bookings_def)
  have own: "booking_client (ex_booking ''cancelled'') = user_id ex_user \<or> user_role ex_user = ''admin''"
    by (simp add: ex_booking_def ex_user_def)
  have st: "booking_status (ex_booking ''cancelled'') = ''cancelled''"
    by (simp add: ex_booking_def)
  have valid: "booking_valid (ex_booking ''cancelled'')"
    by (rule ex_booking_valid) (simp add: booking_status_enum_def)
  note k = cancelBooking_again [OF b own st valid, of calendly_up "Some ''key''" None "''evt-1''"]
  note n = cancelBooking_again [OF b own st valid, of calendly_up None None "''evt-1''"]
  from k n b st valid show ?thesis
    by (simp add: truthy_def ex_booking_def ex_bookings_def ex_user_def)
qed

theorem cancelBooking_again_counterexample:
  "map_option booking_status
      (bookings (snd (cancelBooking calendly_up (Some ''key'') ex_user 1 None (ex_bookings ''confirmed''))) 1)
     = Some ''cancelled''
   \<and> calendly_calls (snd (cancelBooking calendly_up (Some ''key'') ex_user 1 None (ex_bookings ''confirmed'')))
     = [(''evt-1'', ''Cancelled by user'')]
   \<and> fst (cancelBooking calendly_up (Some ''key'') ex_user 1 None
            (snd (cancelBooking calendly_up (Some ''key'') ex_user 1 None (ex_bookings ''confirmed''))))
     = Inr (200, ex_booking ''cancelled'')
   \<and> calendly_calls
        (snd (cancelBooking calendly_up (Some ''key'') ex_user 1 None
               (snd (cancelBooking calendly_up (Some ''key'') ex_user 1 None (ex_bookings ''confirmed'')))))
     = [(''evt-1'', ''Cancelled by user''), (''evt-1'', ''Cancelled by user'')]"
proof -
  have first: "cancelBooking calendly_up (Some ''key'') ex_user 1 None (ex_bookings ''confirmed'')
      = (Inr (200, ex_booking ''cancelled''),
         \<lparr>bookings = [1 \<mapsto> ex_booking ''cancelled''],
          calendly_calls = [(''evt-1'', ''Cancelled by user'')], console_errors = []\<rparr>)"
    by (simp add: cancelBooking_def booking_defs ex_booking_defs truthy_def calendly_up_def)
  have second: "cancelBooking calendly_up (Some ''key'') ex_user 1 None
         \<lparr>bookings = [1 \<mapsto> ex_booking ''cancelled''],
          calendly_calls = [(''evt-1'', ''Cancelled by user'')], console_errors = []\<rparr>
      = (Inr (200, ex_booking ''cancelled''),
         \<lparr>bookings = [1 \<mapsto> ex_booking ''cancelled''],
          calendly_calls = [(''evt-1'', ''Cancelled by user''), (''evt-1'', ''Cancelled by user'')],
          console_errors = []\<rparr>)"
    by (simp add: cancelBooking_def booking_defs ex_booking_defs truthy_def calendly_up_def)
  show ?thesis
    unfolding first snd_conv second fst_conv by (simp add: ex_booking_def)
qed

end
